theory Spec2Isabelle
  imports Main "HOL-Library.Word" "HOL-Library.Sublist"
begin

section \<open>JavaScript values used by patch-picasso\<close>

text \<open>
  A JavaScript string is a sequence of UTF-16 code units, and \<open>length\<close>, \<open>slice\<close>,
  \<open>substring\<close>, \<open>split\<close> and \<open>includes\<close> all count code units. The ASCII literals of the
  source are embedded with \<open>js\<close>.
\<close>

type_synonym jsstring = "16 word list"

definition js :: "string \<Rightarrow> jsstring" where
  "js s = map (\<lambda>c. of_nat (of_char c)) s"

definition nl :: jsstring where
  "nl = [0x0A]"

text \<open>
  An optional string is \<open>undefined\<close> (\<open>None\<close>) or a string. It is truthy when it is a
  non-empty string; inside a template literal \<open>undefined\<close> is rendered as the text
  \<open>undefined\<close>.
\<close>

definition truthy :: "jsstring option \<Rightarrow> bool" where
  "truthy v = (case v of None \<Rightarrow> False | Some s \<Rightarrow> s \<noteq> [])"

definition interp :: "jsstring option \<Rightarrow> jsstring" where
  "interp v = (case v of None \<Rightarrow> js ''undefined'' | Some s \<Rightarrow> s)"

text \<open>
  A JavaScript number is a double. The program only tests numbers for truthiness and
  renders them into strings, so a number is represented by these two observations: whether
  it is truthy (neither zero nor NaN) and its \<open>String\<close> rendering.
\<close>

datatype number = Number (nonzero: bool) (shown: jsstring)

text \<open>
  Thrown values: \<open>Error\<close> carries the message of a \<open>new Error(message)\<close> of the program;
  \<open>TypeError\<close>, \<open>SyntaxError\<close> and \<open>URIError\<close> are raised by the runtime; \<open>Rejection\<close> is any
  error raised inside a library call (\<open>fetch\<close>, the text and image generation clients), with
  its message.
\<close>

datatype error = Error jsstring | TypeError | SyntaxError | URIError | Rejection jsstring

text \<open>
  A value whose type the program does not control (a flag as minimist returns it, a field
  of the event payload), as far as the program observes it: a string, a number, a boolean,
  or an array or object. An array or object is truthy, has no callable \<open>split\<close>, and is
  given by the outcome of its string conversion, which throws a TypeError when an own
  \<open>toString\<close> property hides the inherited method.
\<close>

datatype jsvalue = VString jsstring | VNumber number | VBoolean bool | VObject "error + jsstring"

definition truthy_value :: "jsvalue option \<Rightarrow> bool" where
  "truthy_value v =
     (case v of
        None \<Rightarrow> False
      | Some (VString s) \<Rightarrow> s \<noteq> []
      | Some (VNumber n) \<Rightarrow> nonzero n
      | Some (VBoolean b) \<Rightarrow> b
      | Some (VObject r) \<Rightarrow> True)"

text \<open>The string conversion that a template literal performs.\<close>

definition render :: "jsvalue \<Rightarrow> error + jsstring" where
  "render v =
     (case v of
        VString s \<Rightarrow> Inr s
      | VNumber n \<Rightarrow> Inr (shown n)
      | VBoolean b \<Rightarrow> Inr (if b then js ''true'' else js ''false'')
      | VObject r \<Rightarrow> r)"

text \<open>\<open>Array.prototype.join\<close>, \<open>String.prototype.includes\<close> and \<open>String.prototype.split\<close>
  with a one-unit separator.\<close>

fun join :: "jsstring list \<Rightarrow> jsstring \<Rightarrow> jsstring" where
  "join [] sep = []"
| "join [x] sep = x"
| "join (x # y # ys) sep = x @ sep @ join (y # ys) sep"

fun js_includes :: "'a list \<Rightarrow> 'a list \<Rightarrow> bool" where
  "js_includes [] m = (m = [])"
| "js_includes (c # s) m = (prefix m (c # s) \<or> js_includes s m)"

fun split :: "'a list \<Rightarrow> 'a \<Rightarrow> 'a list list" where
  "split [] sep = [[]]"
| "split (c # cs) sep =
     (if c = sep then [] # split cs sep
      else (case split cs sep of [] \<Rightarrow> [[c]] | p # ps \<Rightarrow> (c # p) # ps))"

text \<open>Values produced by \<open>JSON.parse\<close>. An object is the list of its own properties.\<close>

datatype json =
    JNull
  | JBool bool
  | JNum number
  | JStr jsstring
  | JArr "json list"
  | JObj "(jsstring \<times> json) list"

text \<open>
  Property access \<open>v.name\<close> for a name that no prototype defines (as \<open>imagePrompt\<close> and
  \<open>caption\<close>): it throws a TypeError on \<open>null\<close>, is \<open>undefined\<close> on the other primitives and on
  arrays, and is the own property on an object.
\<close>

fun get_property :: "json \<Rightarrow> jsstring \<Rightarrow> error + json option" where
  "get_property JNull name = Inl TypeError"
| "get_property (JObj ps) name = Inr (map_of ps name)"
| "get_property v name = Inr None"

fun truthy_json :: "json option \<Rightarrow> bool" where
  "truthy_json None = False"
| "truthy_json (Some JNull) = False"
| "truthy_json (Some (JBool b)) = b"
| "truthy_json (Some (JNum n)) = nonzero n"
| "truthy_json (Some (JStr s)) = (s \<noteq> [])"
| "truthy_json (Some (JArr xs)) = True"
| "truthy_json (Some (JObj ps)) = True"

text \<open>The outcomes of a list of conversions done in order: the first error, else all values.\<close>

fun collect :: "(error + 'a) list \<Rightarrow> error + 'a list" where
  "collect [] = Inr []"
| "collect (Inl e # rs) = Inl e"
| "collect (Inr a # rs) = (case collect rs of Inl e \<Rightarrow> Inl e | Inr as \<Rightarrow> Inr (a # as))"

text \<open>
  \<open>String(v)\<close> for a value produced by \<open>JSON.parse\<close>. An array is its elements joined by
  commas, \<open>null\<close> elements rendered empty and the others converted in turn. An object is
  \<open>[object Object]\<close>, unless it has an own property \<open>toString\<close>: that property is never
  callable, the inherited \<open>valueOf\<close> returns the object itself (and an own \<open>valueOf\<close> is not
  callable either), so the conversion throws a TypeError. The limit that the call stack of
  the runtime puts on the nesting of arrays is not modelled.
\<close>

fun ToString :: "json \<Rightarrow> error + jsstring" where
  "ToString JNull = Inr (js ''null'')"
| "ToString (JBool b) = Inr (if b then js ''true'' else js ''false'')"
| "ToString (JNum n) = Inr (shown n)"
| "ToString (JStr s) = Inr s"
| "ToString (JArr xs) =
     (case collect (map (\<lambda>x. if x = JNull then Inr [] else ToString x) xs) of
        Inl e \<Rightarrow> Inl e
      | Inr ss \<Rightarrow> Inr (join ss (js '','')))"
| "ToString (JObj ps) =
     (if map_of ps (js ''toString'') \<noteq> None then Inl TypeError
      else Inr (js ''[object Object]''))"

text \<open>\<open>String(v || '')\<close>\<close>

definition String_or_empty :: "json option \<Rightarrow> error + jsstring" where
  "String_or_empty v =
     (case v of Some x \<Rightarrow> if truthy_json v then ToString x else Inr [] | None \<Rightarrow> Inr [])"


section \<open>Effects: the calls a run makes, and how it ends\<close>

text \<open>
  The outcome of one \<open>fetch\<close> round trip: the promise is rejected (by \<open>fetch\<close>, \<open>res.text()\<close>
  or \<open>res.json()\<close>), or the response is not \<open>ok\<close> and has a status (rendered), a status text
  and a body text, or it is \<open>ok\<close> and \<open>res.json()\<close> yields a value.
\<close>

datatype 'a fetch_result = Rejected error | NotOk jsstring jsstring jsstring | Ok 'a

text \<open>Request bodies: \<open>{ body }\<close>, \<open>{ ref, sha }\<close> and \<open>{ message, content, branch, sha }\<close>.\<close>

datatype payload =
    CommentBody jsstring
  | NewRef jsstring jsstring
  | FileWrite jsstring jsstring jsstring "jsstring option"

datatype call =
    Get jsstring
  | Post jsstring payload
  | Put jsstring payload
  | GenerateText jsstring jsstring
  | ImagesGenerate jsstring

text \<open>A computation that has run: the external calls it made, in order, and its result.
  Console output is not recorded.\<close>

record 'a ran =
  calls :: "call list"
  result :: 'a

definition finished :: "'a \<Rightarrow> 'a ran" where
  "finished x = \<lparr>calls = [], result = x\<rparr>"

definition after :: "call \<Rightarrow> 'a ran \<Rightarrow> 'a ran" where
  "after c r = \<lparr>calls = c # calls r, result = result r\<rparr>"

definition and_then :: "'a ran \<Rightarrow> ('a \<Rightarrow> 'b ran) \<Rightarrow> 'b ran" where
  "and_then r k = \<lparr>calls = calls r @ calls (k (result r)), result = result (k (result r))\<rparr>"

text \<open>
  \<open>main\<close> returns, or the process is ended by \<open>process.exit(code)\<close>, or \<open>main\<close> throws and the
  handler \<open>main().catch\<close> logs the message and calls \<open>process.exit(1)\<close>.
\<close>

datatype outcome = Returned | Exited nat | Threw error

definition exit_code :: "outcome ran \<Rightarrow> nat" where
  "exit_code r = (case result r of Returned \<Rightarrow> 0 | Exited code \<Rightarrow> code | Threw e \<Rightarrow> 1)"

section \<open>Data of the REST and generation responses\<close>

text \<open>
  The fields the program reads, typed as the REST API and the image client document them;
  a field that can be absent or \<open>null\<close> is an option. The body of a comment is kept as a JSON
  value, since the program tests its type.
\<close>

record pull =
  pr_title :: jsstring
  pr_body :: "jsstring option"
  pr_user_login :: "jsstring option"
  pr_base_ref :: "jsstring option"
  pr_head_ref :: "jsstring option"
  pr_head_repo_full_name :: "jsstring option"
  pr_base_repo_full_name :: "jsstring option"

record changed_file =
  file_status :: jsstring
  file_filename :: jsstring

record comment =
  comment_body :: json

record image_datum =
  url :: "jsstring option"
  b64_json :: "jsstring option"

record images_response =
  data :: "image_datum list option"

record put_response =
  content_download_url :: "jsstring option"

text \<open>
  Everything a run of \<open>main\<close> reads from outside: environment variables, the flags as
  minimist returns them (called without a \<open>string\<close> option it turns a numeric-looking value
  into a number, a flag without value into \<open>true\<close>, a repeated flag into an array and a
  dotted flag into an object), \<open>event?.pull_request?.number\<close> of the payload returned by
  \<open>getEventPayload\<close>, the
  built-ins \<open>JSON.parse\<close> (\<open>None\<close> when it throws), \<open>encodeURIComponent\<close> (\<open>None\<close> when it
  throws) and \<open>Date.now()\<close>, and the response to each of the calls of \<open>main\<close>, each of which
  is made at most once.
\<close>

record world =
  env_GITHUB_TOKEN :: "jsstring option"
  env_OPENAI_API_KEY :: "jsstring option"
  env_GITHUB_REPOSITORY :: "jsstring option"
  args_repo :: "jsvalue option"
  args_pr :: "jsvalue option"
  args_pr_number :: "jsvalue option"
  event_pull_request_number :: "jsvalue option"
  JSON_parse :: "jsstring \<Rightarrow> json option"
  encodeURIComponent :: "jsstring \<Rightarrow> jsstring option"
  Date_now :: number
  res_pr :: "pull fetch_result"
  res_files :: "changed_file list fetch_result"
  res_comments :: "comment list fetch_result"
  res_generateText :: "error + jsstring"
  res_images_generate :: "error + images_response"
  res_put :: "put_response fetch_result"
  res_post :: "unit fetch_result"

section \<open>src/src/index.ts\<close>

definition MARKER :: jsstring where
  "MARKER = js ''<!-- patch-picasso -->''"

text \<open>\<open>getEnv\<close>, on the value \<open>process.env[name]\<close>: \<open>Inl code\<close> is \<open>process.exit(code)\<close>.\<close>

definition getEnv :: "jsstring option \<Rightarrow> bool \<Rightarrow> nat + jsstring option" where
  "getEnv v required = (if \<not> truthy v \<and> required then Inl 1 else Inr v)"

text \<open>
  \<open>parseRepo\<close>: \<open>0x2F\<close> is the code unit of \<open>/\<close>; the destructuring \<open>[owner, name]\<close> reads the
  first two elements, \<open>undefined\<close> where there is none. The parameter is declared a string,
  but \<open>main\<close> passes what minimist returned: on a value that is not a string, \<open>repo.split\<close> is
  not a function and the call throws a TypeError.
\<close>

definition parseRepo :: "jsvalue \<Rightarrow> error + jsstring \<times> jsstring" where
  "parseRepo repo =
     (case repo of
        VString s \<Rightarrow>
          (let parts = split s 0x2F;
               owner = (case parts of [] \<Rightarrow> None | a # _ \<Rightarrow> Some a);
               name = (case parts of a # b # _ \<Rightarrow> Some b | _ \<Rightarrow> None)
           in if \<not> truthy owner \<or> \<not> truthy name
              then Inl (Error (js ''Invalid repo string: '' @ s))
              else Inr (the owner, the name))
      | _ \<Rightarrow> Inl TypeError)"

definition fetchJson :: "jsstring \<Rightarrow> 'a fetch_result \<Rightarrow> error + 'a" where
  "fetchJson u res =
     (case res of
        Rejected e \<Rightarrow> Inl e
      | NotOk status statusText text \<Rightarrow>
          Inl (Error (js ''GitHub API '' @ u @ js '' failed: '' @ status @ js '' ''
                      @ statusText @ js '' - '' @ text))
      | Ok v \<Rightarrow> Inr v)"

definition postJson :: "jsstring \<Rightarrow> 'a fetch_result \<Rightarrow> error + 'a" where
  "postJson u res =
     (case res of
        Rejected e \<Rightarrow> Inl e
      | NotOk status statusText text \<Rightarrow>
          Inl (Error (js ''GitHub API POST '' @ u @ js '' failed: '' @ status @ js '' ''
                      @ statusText @ js '' - '' @ text))
      | Ok v \<Rightarrow> Inr v)"

text \<open>
  The values \<open>main\<close> has resolved when it starts calling the REST API; \<open>ctx_prNumber\<close> is
  \<open>prNumber\<close> as the template literals render it.
\<close>

record ctx =
  ctx_githubToken :: jsstring
  ctx_openaiKey :: jsstring
  ctx_owner :: jsstring
  ctx_repo :: jsstring
  ctx_prNumber :: jsstring
  ctx_apiBase :: jsstring

text \<open>Line 80: the flag when it is truthy, else the environment variable.\<close>

definition repoArg :: "world \<Rightarrow> jsvalue option" where
  "repoArg w =
     (if truthy_value (args_repo w) then args_repo w
      else map_option VString (env_GITHUB_REPOSITORY w))"

text \<open>
  Lines 73 to 96 of \<open>main\<close> (lines 91 to 114 of the second entry point, the same text),
  with the string conversion of \<open>prNumber\<close> that the template literal of line 98 performs
  before the first request: when it throws, \<open>main\<close> throws without having made a call.
\<close>

definition resolve :: "world \<Rightarrow> outcome + ctx" where
  "resolve w =
     (case getEnv (env_GITHUB_TOKEN w) True of Inl code \<Rightarrow> Inl (Exited code) | Inr githubToken \<Rightarrow>
     (case getEnv (env_OPENAI_API_KEY w) True of Inl code \<Rightarrow> Inl (Exited code) | Inr openaiKey \<Rightarrow>
      if \<not> truthy githubToken \<or> \<not> truthy openaiKey then Inl Returned else
      if \<not> truthy_value (repoArg w) then Inl (Exited 1) else
     (case parseRepo (the (repoArg w)) of Inl e \<Rightarrow> Inl (Threw e) | Inr (owner, repo) \<Rightarrow>
      let prNumber0 = (if truthy_value (args_pr w) then args_pr w else args_pr_number w);
          prNumber = (if \<not> truthy_value prNumber0 \<and> truthy_value (event_pull_request_number w)
                      then event_pull_request_number w else prNumber0)
      in if \<not> truthy_value prNumber then Inl (Exited 1) else
     (case render (the prNumber) of Inl e \<Rightarrow> Inl (Threw e) | Inr rendered \<Rightarrow>
      Inr \<lparr>ctx_githubToken = the githubToken, ctx_openaiKey = the openaiKey,
           ctx_owner = owner, ctx_repo = repo, ctx_prNumber = rendered,
           ctx_apiBase = js ''https://api.github.com/repos/'' @ owner @ js ''/'' @ repo\<rparr>))))"

text \<open>The idempotency check of lines 103 and 104.\<close>

definition existing :: "comment list \<Rightarrow> comment option" where
  "existing comments =
     List.find (\<lambda>c. case comment_body c of JStr b \<Rightarrow> js_includes b MARKER | _ \<Rightarrow> False) comments"

definition prSummary :: "pull \<Rightarrow> changed_file list \<Rightarrow> jsstring" where
  "prSummary pr files =
     (let changedFiles = take 30 (map (\<lambda>f. file_status f @ js '': '' @ file_filename f) files)
      in join ([js ''Title: '' @ pr_title pr,
                (if truthy (pr_body pr) then js ''Body: '' @ take 2000 (the (pr_body pr))
                 else js ''Body: (none)''),
                js ''Author: '' @ interp (pr_user_login pr),
                js ''Base: '' @ interp (pr_base_ref pr),
                js ''Head: '' @ interp (pr_head_ref pr),
                js ''Files:''] @ changedFiles) nl)"

definition promptSystem :: jsstring where
  "promptSystem = join
     [js ''You are a witty prompt engineer who writes funny, vivid scene descriptions for an image generation model.'',
      js ''Constraints:'',
      js ''- Keep the image prompt under 120 words.'',
      js ''- Keep the style playful and safe-for-work.'',
      js ''- Avoid logos, trademarks, and real person likenesses.'',
      js ''- Prefer cartoony styles. Include specific visual details relevant to the PR.'' @ nl] nl"

definition promptUser :: "jsstring \<Rightarrow> jsstring" where
  "promptUser summary = join
     [js ''Create:'',
      js ''1) An IMAGE PROMPT: a funny scene inspired by this PR.'',
      js ''2) A CAPTION: one short witty line for the comment.'',
      [],
      js ''PR DETAILS:'' @ nl @ summary,
      [],
      js ''Output JSON with keys imagePrompt and caption.''] nl"

text \<open>Lines 147 to 157: the \<open>try\<close> block, in which \<open>JSON.parse\<close>, a property access on \<open>null\<close>
  and a string conversion can throw, then the \<open>catch\<close> that replaces both values.\<close>

definition try_parse :: "(jsstring \<Rightarrow> json option) \<Rightarrow> jsstring \<Rightarrow> error + jsstring \<times> jsstring" where
  "try_parse parse structured =
     (case parse structured of None \<Rightarrow> Inl SyntaxError | Some parsed \<Rightarrow>
     (case get_property parsed (js ''imagePrompt'') of Inl e \<Rightarrow> Inl e | Inr p \<Rightarrow>
     (case String_or_empty p of Inl e \<Rightarrow> Inl e | Inr imagePrompt \<Rightarrow>
     (case get_property parsed (js ''caption'') of Inl e \<Rightarrow> Inl e | Inr c \<Rightarrow>
     (case String_or_empty c of Inl e \<Rightarrow> Inl e | Inr caption \<Rightarrow>
      Inr (take 800 imagePrompt, take 200 caption))))))"

definition parseStructured :: "(jsstring \<Rightarrow> json option) \<Rightarrow> jsstring \<Rightarrow> jsstring \<times> jsstring" where
  "parseStructured parse structured =
     (case try_parse parse structured of
        Inr r \<Rightarrow> r
      | Inl e \<Rightarrow> (take 800 structured, js ''A lighthearted take on this PR''))"

text \<open>\<open>image.data?.[0]\<close>\<close>

definition first_datum :: "images_response \<Rightarrow> image_datum option" where
  "first_datum img = (case data img of None \<Rightarrow> None | Some [] \<Rightarrow> None | Some (d # _) \<Rightarrow> Some d)"

definition first_url :: "images_response \<Rightarrow> jsstring option" where
  "first_url img = (case first_datum img of None \<Rightarrow> None | Some d \<Rightarrow> url d)"

definition first_b64 :: "images_response \<Rightarrow> jsstring option" where
  "first_b64 img = (case first_datum img of None \<Rightarrow> None | Some d \<Rightarrow> b64_json d)"

text \<open>
  Lines 73 to 164 of \<open>main\<close>, up to the image response; \<open>rest\<close> is what follows. Lines 91 to
  182 of the second entry point are the same text.
\<close>

definition main_upto_image ::
  "(world \<Rightarrow> ctx \<Rightarrow> pull \<Rightarrow> jsstring \<Rightarrow> images_response \<Rightarrow> outcome ran) \<Rightarrow> world \<Rightarrow> outcome ran" where
  "main_upto_image rest w =
     (case resolve w of Inl out \<Rightarrow> finished out | Inr c \<Rightarrow>
      let prUrl = ctx_apiBase c @ js ''/pulls/'' @ ctx_prNumber c;
          filesUrl = ctx_apiBase c @ js ''/pulls/'' @ ctx_prNumber c @ js ''/files?per_page=100'';
          commentsUrl = ctx_apiBase c @ js ''/issues/'' @ ctx_prNumber c @ js ''/comments?per_page=100''
      in
      after (Get prUrl) (case fetchJson prUrl (res_pr w) of Inl e \<Rightarrow> finished (Threw e) | Inr pr \<Rightarrow>
      after (Get filesUrl) (case fetchJson filesUrl (res_files w) of Inl e \<Rightarrow> finished (Threw e) | Inr files \<Rightarrow>
      after (Get commentsUrl) (case fetchJson commentsUrl (res_comments w) of Inl e \<Rightarrow> finished (Threw e) | Inr comments \<Rightarrow>
      if existing comments \<noteq> None then finished Returned else
      after (GenerateText promptSystem (promptUser (prSummary pr files)))
        (case res_generateText w of Inl e \<Rightarrow> finished (Threw e) | Inr structured \<Rightarrow>
      case parseStructured (JSON_parse w) structured of (imagePrompt, caption) \<Rightarrow>
      after (ImagesGenerate imagePrompt)
        (case res_images_generate w of Inl e \<Rightarrow> finished (Threw e) | Inr img \<Rightarrow>
      rest w c pr caption img))))))"

text \<open>The three reads of lines 98 to 102, which every run that has resolved its context
  starts with.\<close>

definition first_gets :: "ctx \<Rightarrow> call list" where
  "first_gets c =
     [Get (ctx_apiBase c @ js ''/pulls/'' @ ctx_prNumber c),
      Get (ctx_apiBase c @ js ''/pulls/'' @ ctx_prNumber c @ js ''/files?per_page=100''),
      Get (ctx_apiBase c @ js ''/issues/'' @ ctx_prNumber c @ js ''/comments?per_page=100'')]"

text \<open>The URL of the comment post (line 187).\<close>

definition postUrl :: "ctx \<Rightarrow> jsstring" where
  "postUrl c = ctx_apiBase c @ js ''/issues/'' @ ctx_prNumber c @ js ''/comments''"

text \<open>Lines 166 to 175: the direct URL, else a data URL of the base64 payload, else a throw.\<close>

definition resolveImageUrl :: "images_response \<Rightarrow> error + jsstring" where
  "resolveImageUrl img =
     (let imageUrl0 = first_url img;
          imageUrl = (if \<not> truthy imageUrl0
                      then (let b64 = first_b64 img
                            in if truthy b64 then Some (js ''data:image/png;base64,'' @ the b64)
                               else imageUrl0)
                      else imageUrl0)
      in if \<not> truthy imageUrl then Inl (Error (js ''OpenAI did not return an image URL or data''))
         else Inr (the imageUrl))"

definition attribution :: jsstring where
  "attribution = js ''<sub>Generated by patch-picasso using Vercel AI SDK and OpenAI.</sub>''"

text \<open>Lines 177 to 185.\<close>

definition compose :: "jsstring \<Rightarrow> jsstring \<Rightarrow> jsstring" where
  "compose caption imageUrl = join
     [MARKER,
      nl,
      (if caption \<noteq> [] then js ''> '' @ caption @ nl else []),
      [],
      js ''![Funny PR Image]('' @ imageUrl @ js '')'',
      [],
      attribution] nl"

text \<open>Lines 166 to 188.\<close>

definition main_rest :: "world \<Rightarrow> ctx \<Rightarrow> pull \<Rightarrow> jsstring \<Rightarrow> images_response \<Rightarrow> outcome ran" where
  "main_rest w c pr caption img =
     (case resolveImageUrl img of Inl e \<Rightarrow> finished (Threw e) | Inr imageUrl \<Rightarrow>
      let postUrl = ctx_apiBase c @ js ''/issues/'' @ ctx_prNumber c @ js ''/comments''
      in after (Post postUrl (CommentBody (compose caption imageUrl)))
           (case postJson postUrl (res_post w) of Inl e \<Rightarrow> finished (Threw e)
            | Inr _ \<Rightarrow> finished Returned))"

definition main :: "world \<Rightarrow> outcome ran" where
  "main w = main_upto_image main_rest w"

section \<open>The second entry point (src/unnamed/part_000)\<close>

text \<open>
  Its \<open>MARKER\<close>, \<open>getEnv\<close>, \<open>parseRepo\<close>, \<open>fetchJson\<close>, \<open>postJson\<close> and lines 91 to 182 of its
  \<open>main\<close> are the text of src/src/index.ts; it adds \<open>putJson\<close> and replaces the end of \<open>main\<close>.
\<close>

definition putJson :: "jsstring \<Rightarrow> 'a fetch_result \<Rightarrow> error + 'a" where
  "putJson u res =
     (case res of
        Rejected e \<Rightarrow> Inl e
      | NotOk status statusText text \<Rightarrow>
          Inl (Error (js ''GitHub API PUT '' @ u @ js '' failed: '' @ status @ js '' ''
                      @ statusText @ js '' - '' @ text))
      | Ok v \<Rightarrow> Inr v)"

text \<open>
  Lines 193 to 204, the \<open>try\<close> block that commits the image to the head branch and its
  \<open>catch\<close>: the result is the value assigned to \<open>imageUrl\<close>, \<open>None\<close> when the block threw
  before the assignment.
\<close>

definition upload_to_head :: "world \<Rightarrow> ctx \<Rightarrow> jsstring \<Rightarrow> jsstring \<Rightarrow> jsstring option ran" where
  "upload_to_head w c b64 headRef =
     (let imgPath = js ''.github/patch-picasso/'' @ ctx_prNumber c @ js ''-''
                    @ shown (Date_now w) @ js ''.png''
      in case encodeURIComponent w imgPath of None \<Rightarrow> finished None | Some encPath \<Rightarrow>
         (let putUrl = ctx_apiBase c @ js ''/contents/'' @ encPath
          in after (Put putUrl (FileWrite (js ''patch-picasso: add generated image for PR #''
                                            @ ctx_prNumber c) b64 headRef None))
               (case putJson putUrl (res_put w) of Inl e \<Rightarrow> finished None | Inr res \<Rightarrow>
                  if truthy (content_download_url res) then finished (content_download_url res)
                  else (case encodeURIComponent w headRef of None \<Rightarrow> finished None
                        | Some encRef \<Rightarrow>
                            finished (Some (js ''https://raw.githubusercontent.com/'' @ ctx_owner c
                                            @ js ''/'' @ ctx_repo c @ js ''/'' @ encRef
                                            @ js ''/'' @ imgPath))))))"

text \<open>Lines 214 to 220.\<close>

definition compose_part_000 :: "jsstring \<Rightarrow> jsstring option \<Rightarrow> jsstring" where
  "compose_part_000 caption imageUrl = join
     [MARKER,
      nl,
      (if caption \<noteq> [] then js ''> '' @ caption @ nl else []),
      (if truthy imageUrl then nl @ js ''![Funny PR Image]('' @ the imageUrl @ js '')'' @ nl
       else nl @ js ''(Generated image unavailable)'' @ nl),
      attribution] nl"

text \<open>Lines 184 to 210: the value of \<open>imageUrl\<close> after the fallback block.\<close>

definition fallback :: "world \<Rightarrow> ctx \<Rightarrow> pull \<Rightarrow> images_response \<Rightarrow> jsstring option ran" where
  "fallback w c pr img =
     (let imageUrl0 = first_url img
      in if \<not> truthy imageUrl0
         then (let b64 = first_b64 img;
                   headRepoFull = pr_head_repo_full_name pr;
                   baseRepoFull = pr_base_repo_full_name pr;
                   headRef = pr_head_ref pr
               in if truthy b64 \<and> truthy headRepoFull \<and> truthy baseRepoFull
                     \<and> headRepoFull = baseRepoFull \<and> truthy headRef
                  then and_then (upload_to_head w c (the b64) (the headRef))
                         (\<lambda>u. finished (case u of None \<Rightarrow> imageUrl0 | Some _ \<Rightarrow> u))
                  else finished imageUrl0)
         else finished imageUrl0)"

text \<open>Lines 184 to 223.\<close>

definition main_rest_part_000 ::
  "world \<Rightarrow> ctx \<Rightarrow> pull \<Rightarrow> jsstring \<Rightarrow> images_response \<Rightarrow> outcome ran" where
  "main_rest_part_000 w c pr caption img =
     and_then (fallback w c pr img)
       (\<lambda>imageUrl.
          let postUrl = ctx_apiBase c @ js ''/issues/'' @ ctx_prNumber c @ js ''/comments''
          in after (Post postUrl (CommentBody (compose_part_000 (take 500 caption) imageUrl)))
               (case postJson postUrl (res_post w) of Inl e \<Rightarrow> finished (Threw e)
                | Inr _ \<Rightarrow> finished Returned))"

definition main_part_000 :: "world \<Rightarrow> outcome ran" where
  "main_part_000 w = main_upto_image main_rest_part_000 w"

section \<open>src/src/imageStorage.ts\<close>

record repo_info =
  default_branch :: jsstring

record branch_info =
  commit_sha :: jsstring

text \<open>
  What \<open>uploadImageToImagesBranch\<close> reads from outside: the environment variable, the
  built-in \<open>encodeURIComponent\<close> (\<open>None\<close> when it throws) and the response at each of its call
  sites; \<open>res_contents\<close> yields \<open>existing?.sha\<close>.
\<close>

record storage =
  env_PATCH_PICASSO_IMAGE_BRANCH :: "jsstring option"
  encode :: "jsstring \<Rightarrow> jsstring option"
  res_branch :: "unit fetch_result"
  res_repo :: "repo_info fetch_result"
  res_default_branch :: "branch_info fetch_result"
  res_create_ref :: "unit fetch_result"
  res_contents :: "jsstring option fetch_result"
  res_put_contents :: "put_response fetch_result"

definition getJson :: "jsstring \<Rightarrow> 'a fetch_result \<Rightarrow> error + 'a" where
  "getJson u res =
     (case res of
        Rejected e \<Rightarrow> Inl e
      | NotOk status statusText text \<Rightarrow>
          Inl (Error (js ''GET '' @ u @ js '' failed: '' @ status @ js '' ''
                      @ statusText @ js '' - '' @ text))
      | Ok v \<Rightarrow> Inr v)"

definition storage_postJson :: "jsstring \<Rightarrow> 'a fetch_result \<Rightarrow> error + 'a" where
  "storage_postJson u res =
     (case res of
        Rejected e \<Rightarrow> Inl e
      | NotOk status statusText text \<Rightarrow>
          Inl (Error (js ''POST '' @ u @ js '' failed: '' @ status @ js '' ''
                      @ statusText @ js '' - '' @ text))
      | Ok v \<Rightarrow> Inr v)"

definition storage_putJson :: "jsstring \<Rightarrow> 'a fetch_result \<Rightarrow> error + 'a" where
  "storage_putJson u res =
     (case res of
        Rejected e \<Rightarrow> Inl e
      | NotOk status statusText text \<Rightarrow>
          Inl (Error (js ''PUT '' @ u @ js '' failed: '' @ status @ js '' ''
                      @ statusText @ js '' - '' @ text))
      | Ok v \<Rightarrow> Inr v)"

text \<open>Lines 76 to 88 of \<open>ensureImagesBranch\<close>: what follows the existence check.\<close>

definition create_from_default :: "storage \<Rightarrow> jsstring \<Rightarrow> jsstring \<Rightarrow> (error + unit) ran" where
  "create_from_default s apiBase branchName =
     after (Get apiBase)
       (case getJson apiBase (res_repo s) of Inl e \<Rightarrow> finished (Inl e) | Inr repoInfo \<Rightarrow>
        (let defaultBranch = default_branch repoInfo
         in case encode s defaultBranch of None \<Rightarrow> finished (Inl URIError) | Some encDefault \<Rightarrow>
            (let branchUrl = apiBase @ js ''/branches/'' @ encDefault
             in after (Get branchUrl)
                  (case getJson branchUrl (res_default_branch s) of Inl e \<Rightarrow> finished (Inl e)
                   | Inr branchInfo \<Rightarrow>
                     (let headSha = commit_sha branchInfo;
                          refsUrl = apiBase @ js ''/git/refs''
                      in after (Post refsUrl (NewRef (js ''refs/heads/'' @ branchName) headSha))
                           (case storage_postJson refsUrl (res_create_ref s) of
                              Inl e \<Rightarrow> finished (Inl e)
                            | Inr _ \<Rightarrow> finished (Inr ())))))))"

text \<open>\<open>ensureImagesBranch\<close>: the \<open>try\<close> of lines 69 to 74 swallows every error, also the one
  \<open>encodeURIComponent\<close> raises before any request is sent.\<close>

definition ensureImagesBranch ::
  "storage \<Rightarrow> jsstring \<Rightarrow> jsstring \<Rightarrow> jsstring \<Rightarrow> jsstring \<Rightarrow> (error + unit) ran" where
  "ensureImagesBranch s owner repo token branchName =
     (let apiBase = js ''https://api.github.com/repos/'' @ owner @ js ''/'' @ repo
      in case encode s branchName of None \<Rightarrow> create_from_default s apiBase branchName
         | Some encBranch \<Rightarrow>
           (let existsUrl = apiBase @ js ''/branches/'' @ encBranch
            in after (Get existsUrl)
                 (case getJson existsUrl (res_branch s) of Inr _ \<Rightarrow> finished (Inr ())
                  | Inl _ \<Rightarrow> create_from_default s apiBase branchName)))"

text \<open>Lines 98 to 105: the content hash of the file when it exists.\<close>

definition existing_sha :: "storage \<Rightarrow> jsstring \<Rightarrow> jsstring \<Rightarrow> jsstring \<Rightarrow> jsstring option ran" where
  "existing_sha s apiBase pathInRepo branchName =
     (case encode s pathInRepo of None \<Rightarrow> finished None | Some encPath \<Rightarrow>
     (case encode s branchName of None \<Rightarrow> finished None | Some encBranch \<Rightarrow>
      (let fileUrl = apiBase @ js ''/contents/'' @ encPath @ js ''?ref='' @ encBranch
       in after (Get fileUrl)
            (case getJson fileUrl (res_contents s) of Inl _ \<Rightarrow> finished None
             | Inr sha \<Rightarrow> finished sha))))"

record UploadParams =
  owner :: jsstring
  repo :: jsstring
  token :: jsstring
  branchName :: "jsstring option"
  pathInRepo :: jsstring
  commitMessage :: jsstring
  contentBase64 :: jsstring

text \<open>Line 93: the explicit branch name, else the environment variable, else the default.\<close>

definition target_branch :: "storage \<Rightarrow> UploadParams \<Rightarrow> jsstring" where
  "target_branch s params =
     (if truthy (branchName params) then the (branchName params)
      else if truthy (env_PATCH_PICASSO_IMAGE_BRANCH s)
           then the (env_PATCH_PICASSO_IMAGE_BRANCH s)
           else js ''patch-picasso-images'')"

definition uploadImageToImagesBranch :: "storage \<Rightarrow> UploadParams \<Rightarrow> (error + jsstring) ran" where
  "uploadImageToImagesBranch s params =
     (let branch = target_branch s params;
          apiBase = js ''https://api.github.com/repos/'' @ owner params @ js ''/'' @ repo params
      in and_then (ensureImagesBranch s (owner params) (repo params) (token params) branch)
           (\<lambda>ensured. case ensured of Inl e \<Rightarrow> finished (Inl e) | Inr _ \<Rightarrow>
            and_then (existing_sha s apiBase (pathInRepo params) branch)
              (\<lambda>existingSha.
                 case encode s (pathInRepo params) of None \<Rightarrow> finished (Inl URIError)
                 | Some encPath \<Rightarrow>
                   (let putUrl = apiBase @ js ''/contents/'' @ encPath
                    in after (Put putUrl (FileWrite (commitMessage params) (contentBase64 params)
                                            branch existingSha))
                         (case storage_putJson putUrl (res_put_contents s) of
                            Inl e \<Rightarrow> finished (Inl e)
                          | Inr _ \<Rightarrow>
                            (case encode s branch of None \<Rightarrow> finished (Inl URIError)
                             | Some encBranch \<Rightarrow>
                                 finished (Inr (js ''https://raw.githubusercontent.com/''
                                                @ owner params @ js ''/'' @ repo params
                                                @ js ''/refs/heads/'' @ encBranch @ js ''/''
                                                @ pathInRepo params))))))))"

section \<open>Concrete runs\<close>

text \<open>
  Inputs for the examples below. \<open>parse_example\<close> agrees with \<open>JSON.parse\<close> on the
  response texts used here, and \<open>encode_example\<close> agrees with \<open>encodeURIComponent\<close> on
  strings made of unreserved characters and \<open>/\<close>.
\<close>

definition long_response :: jsstring where
  \<open>long_response = js ''{"imagePrompt":"'' @ replicate 900 0x61 @ js ''","caption":"''
                    @ replicate 300 0x62 @ js ''"}''\<close>

definition shadowed_response :: jsstring where
  \<open>shadowed_response = js ''{"imagePrompt":{"toString":"x"},"caption":"hi"}''\<close>

definition parse_example :: "jsstring \<Rightarrow> json option" where
  \<open>parse_example s =
     (if s = js ''{"imagePrompt":"a cat coding","caption":"meow-ge requests"}''
      then Some (JObj [(js ''imagePrompt'', JStr (js ''a cat coding'')),
                       (js ''caption'', JStr (js ''meow-ge requests''))])
      else if s = long_response
      then Some (JObj [(js ''imagePrompt'', JStr (replicate 900 0x61)),
                       (js ''caption'', JStr (replicate 300 0x62))])
      else if s = shadowed_response
      then Some (JObj [(js ''imagePrompt'', JObj [(js ''toString'', JStr (js ''x''))]),
                       (js ''caption'', JStr (js ''hi''))])
      else None)\<close>

definition encode_example :: "jsstring \<Rightarrow> jsstring option" where
  "encode_example s = Some (concat (map (\<lambda>c. if c = 0x2F then js ''%2F'' else [c]) s))"

definition pr_same_repo :: pull where
  "pr_same_repo =
     \<lparr>pr_title = js ''Add parser'', pr_body = None, pr_user_login = Some (js ''octo''),
      pr_base_ref = Some (js ''main''), pr_head_ref = Some (js ''feature''),
      pr_head_repo_full_name = Some (js ''octo/cat''),
      pr_base_repo_full_name = Some (js ''octo/cat'')\<rparr>"

definition pr_fork :: pull where
  "pr_fork = pr_same_repo\<lparr>pr_head_repo_full_name := Some (js ''fork/cat'')\<rparr>"

text \<open>A run on a pull request of the same repository, with unparsable generated text and
  a hosted image URL.\<close>

definition w_base :: world where
  "w_base =
     \<lparr>env_GITHUB_TOKEN = Some (js ''ghp_example''),
      env_OPENAI_API_KEY = Some (js ''sk-example''),
      env_GITHUB_REPOSITORY = None,
      args_repo = Some (VString (js ''octo/cat'')),
      args_pr = Some (VNumber (Number True (js ''123''))),
      args_pr_number = None,
      event_pull_request_number = None,
      JSON_parse = parse_example,
      encodeURIComponent = encode_example,
      Date_now = Number True (js ''1700000000000''),
      res_pr = Ok pr_same_repo,
      res_files = Ok [\<lparr>file_status = js ''modified'', file_filename = js ''src/index.ts''\<rparr>],
      res_comments = Ok [],
      res_generateText = Inr (js ''just some prose''),
      res_images_generate =
        Inr \<lparr>data = Some [\<lparr>url = Some (js ''https://img.example/1.png''), b64_json = None\<rparr>]\<rparr>,
      res_put = Ok \<lparr>content_download_url = None\<rparr>,
      res_post = Ok ()\<rparr>"

definition c_example :: ctx where
  "c_example =
     \<lparr>ctx_githubToken = js ''ghp_example'', ctx_openaiKey = js ''sk-example'',
      ctx_owner = js ''octo'', ctx_repo = js ''cat'', ctx_prNumber = js ''123'',
      ctx_apiBase = js ''https://api.github.com/repos/octo/cat''\<rparr>"

text \<open>The image service answers with base64 data only.\<close>

definition w_b64 :: world where
  "w_b64 = w_base\<lparr>res_images_generate :=
             Inr \<lparr>data = Some [\<lparr>url = None, b64_json = Some (js ''iVBORw0KGgo='')\<rparr>]\<rparr>\<rparr>"

text \<open>The same, and the write response names a download URL.\<close>

definition w_b64_download :: world where
  "w_b64_download = w_b64\<lparr>res_put := Ok \<lparr>content_download_url =
     Some (js ''https://raw.githubusercontent.com/octo/cat/feature/.github/patch-picasso/123-1700000000000.png'')\<rparr>\<rparr>"

definition w_b64_fork :: world where
  "w_b64_fork = w_b64\<lparr>res_pr := Ok pr_fork\<rparr>"

text \<open>The image service answers with neither a URL nor base64 data.\<close>

definition w_no_image :: world where
  "w_no_image = w_base\<lparr>res_images_generate :=
                  Inr \<lparr>data = Some [\<lparr>url = None, b64_json = None\<rparr>]\<rparr>\<rparr>"

text \<open>The comment that the run on \<open>w_base\<close> posts is already on the pull request.\<close>

definition w_marked :: world where
  "w_marked = w_base\<lparr>res_comments :=
     Ok [\<lparr>comment_body = JStr (js ''LGTM'')\<rparr>,
         \<lparr>comment_body = JStr (compose (js ''A lighthearted take on this PR'')
                                         (js ''https://img.example/1.png''))\<rparr>]\<rparr>"

definition w_bad_repo :: world where
  "w_bad_repo = w_base\<lparr>args_repo := Some (VString (js ''octocat''))\<rparr>"

text \<open>The flag \<open>--repo 123\<close>, which minimist returns as the number 123.\<close>

definition w_numeric_repo :: world where
  "w_numeric_repo = w_base\<lparr>args_repo := Some (VNumber (Number True (js ''123'')))\<rparr>"

definition w_long :: world where
  "w_long = w_base\<lparr>res_generateText := Inr long_response\<rparr>"

definition w_shadowed :: world where
  "w_shadowed = w_base\<lparr>res_generateText := Inr shadowed_response\<rparr>"

text \<open>A repository without the images branch, and one that has it. The write response
  carries a download URL.\<close>

definition s_missing :: storage where
  "s_missing =
     \<lparr>env_PATCH_PICASSO_IMAGE_BRANCH = None,
      encode = encode_example,
      res_branch = NotOk (js ''404'') (js ''Not Found'') (js ''Branch not found''),
      res_repo = Ok \<lparr>default_branch = js ''main''\<rparr>,
      res_default_branch = Ok \<lparr>commit_sha = js ''abc123''\<rparr>,
      res_create_ref = Ok (),
      res_contents = NotOk (js ''404'') (js ''Not Found'') (js ''Not Found''),
      res_put_contents = Ok \<lparr>content_download_url =
        Some (js ''https://raw.githubusercontent.com/octo/cat/patch-picasso-images/img.png'')\<rparr>\<rparr>"

definition s_present :: storage where
  "s_present = s_missing\<lparr>res_branch := Ok ()\<rparr>"

definition params_example :: UploadParams where
  "params_example =
     \<lparr>owner = js ''octo'', repo = js ''cat'', token = js ''ghp_example'', branchName = None,
      pathInRepo = js ''img.png'', commitMessage = js ''add image'',
      contentBase64 = js ''iVBORw0KGgo=''\<rparr>"

section \<open>Basic facts about runs and strings\<close>

lemma calls_finished [simp]: "calls (finished x) = []"
  by (simp add: finished_def)

lemma result_finished [simp]: "result (finished x) = x"
  by (simp add: finished_def)

lemma calls_after [simp]: "calls (after c r) = c # calls r"
  by (simp add: after_def)

lemma result_after [simp]: "result (after c r) = result r"
  by (simp add: after_def)

lemma calls_and_then [simp]: "calls (and_then r k) = calls r @ calls (k (result r))"
  by (simp add: and_then_def)

lemma result_and_then [simp]: "result (and_then r k) = result (k (result r))"
  by (simp add: and_then_def)

lemma split_not_Nil: "split xs sep \<noteq> []"
  by (induction xs) (auto split: list.splits)

lemma split_no_sep: "sep \<notin> set xs \<Longrightarrow> split xs sep = [xs]"
  by (induction xs) auto

lemma split_append_sep: "sep \<notin> set xs \<Longrightarrow> split (xs @ sep # ys) sep = xs # split ys sep"
  by (induction xs) auto

text \<open>The first piece of a split has no separator, and either it is the whole string or
  the string continues with a separator and the remaining pieces.\<close>

lemma split_Cons_cases:
  "split s sep = a # bs \<Longrightarrow>
     sep \<notin> set a \<and> ((bs = [] \<and> s = a) \<or> (\<exists>t. s = a @ sep # t \<and> split t sep = bs))"
proof (induction s arbitrary: a bs)
  case Nil
  then show ?case by simp
next
  case (Cons c s)
  show ?case
  proof (cases "c = sep")
    case True
    with Cons.prems show ?thesis by auto
  next
    case False
    then obtain p ps where sp: "split s sep = p # ps" and a: "a = c # p" and bs: "bs = ps"
      using Cons.prems split_not_Nil [of s sep] by (auto split: list.splits)
    from Cons.IH [OF sp] False a bs show ?thesis by auto
  qed
qed

section \<open>Repository strings\<close>

lemma parseRepo_Inr_split:
  assumes "parseRepo (VString s) = Inr (a, b)"
  shows "a \<noteq> [] \<and> b \<noteq> [] \<and> (\<exists>rest. split s 0x2F = a # b # rest)"
  using assms by (auto simp: parseRepo_def Let_def truthy_def split: if_splits list.splits)

lemma parseRepo_not_string:
  assumes "\<forall>t. v \<noteq> VString t"
  shows "parseRepo v = Inl TypeError"
  using assms by (cases v) (simp_all add: parseRepo_def)

text \<open>A truthy flag that is not a string makes \<open>main\<close> throw the TypeError of \<open>parseRepo\<close>.\<close>

lemma resolve_non_string_repo:
  assumes "truthy (env_GITHUB_TOKEN w)" and "truthy (env_OPENAI_API_KEY w)"
    and "args_repo w = Some v" and "truthy_value (Some v)" and "\<forall>t. v \<noteq> VString t"
  shows "resolve w = Inl (Threw TypeError)"
  using assms
  by (simp add: resolve_def repoArg_def getEnv_def truthy_def parseRepo_not_string)

lemma resolve_parseRepo_throws:
  assumes "truthy (env_GITHUB_TOKEN w)" and "truthy (env_OPENAI_API_KEY w)"
    and "repoArg w = Some v" and "truthy_value (Some v)"
    and "parseRepo v = Inl e"
  shows "resolve w = Inl (Threw e)"
  using assms by (simp add: resolve_def getEnv_def truthy_def)

text \<open>
  Claim C4, as the code has it. On a string, \<open>parseRepo\<close> looks at the text before the
  first \<open>/\<close> and at the text between the first \<open>/\<close> and the second one (or the end of the
  string): when both are non-empty they are the owner and the name, and whatever follows a
  second \<open>/\<close> is ignored. In particular a string with exactly one \<open>/\<close> and two non-empty
  parts resolves to these parts. A string resolves only in this way, and every other
  string fails with the message \<open>Invalid repo string: \<close> followed by the string itself,
  which \<open>main\<close> throws when that string is what the flag or the environment gave. The
  statement is about values that reach \<open>parseRepo\<close> as strings: the environment variable,
  and a flag that minimist returns as a string.
\<close>

theorem parseRepo_first_two_segments:
  "(a \<noteq> [] \<and> b \<noteq> [] \<and> 0x2F \<notin> set a \<and> 0x2F \<notin> set b \<longrightarrow>
      parseRepo (VString (a @ 0x2F # b)) = Inr (a, b)
      \<and> parseRepo (VString (a @ 0x2F # b @ 0x2F # rest)) = Inr (a, b))
   \<and> (parseRepo (VString s) = Inr (a, b) \<longrightarrow>
        a \<noteq> [] \<and> b \<noteq> [] \<and> 0x2F \<notin> set a \<and> 0x2F \<notin> set b
        \<and> (s = a @ 0x2F # b \<or> (\<exists>more. s = a @ 0x2F # b @ 0x2F # more)))
   \<and> (parseRepo (VString s) = Inl e \<longrightarrow>
        e = Error (js ''Invalid repo string: '' @ s)
        \<and> (truthy (env_GITHUB_TOKEN w) \<and> truthy (env_OPENAI_API_KEY w) \<and> s \<noteq> []
             \<and> repoArg w = Some (VString s) \<longrightarrow>
            resolve w = Inl (Threw (Error (js ''Invalid repo string: '' @ s)))))"
proof (intro conjI impI)
  assume h: "a \<noteq> [] \<and> b \<noteq> [] \<and> 0x2F \<notin> set a \<and> 0x2F \<notin> set b"
  then show "parseRepo (VString (a @ 0x2F # b)) = Inr (a, b)"
    by (simp add: parseRepo_def split_append_sep split_no_sep truthy_def)
  from h show "parseRepo (VString (a @ 0x2F # b @ 0x2F # rest)) = Inr (a, b)"
    by (simp add: parseRepo_def split_append_sep truthy_def)
next
  assume r: "parseRepo (VString s) = Inr (a, b)"
  from parseRepo_Inr_split [OF r] obtain more where
    ne: "a \<noteq> []" "b \<noteq> []" and sp: "split s 0x2F = a # b # more"
    by blast
  from split_Cons_cases [OF sp] obtain t where
    a: "0x2F \<notin> set a" and s: "s = a @ 0x2F # t" and t: "split t 0x2F = b # more"
    by blast
  from split_Cons_cases [OF t] have
    b: "0x2F \<notin> set b" and tt: "(more = [] \<and> t = b) \<or> (\<exists>u. t = b @ 0x2F # u \<and> split u 0x2F = more)"
    by blast+
  from ne show "a \<noteq> []" "b \<noteq> []" by simp_all
  from a show "0x2F \<notin> set a" .
  from b show "0x2F \<notin> set b" .
  from s tt show "s = a @ 0x2F # b \<or> (\<exists>more. s = a @ 0x2F # b @ 0x2F # more)"
    by auto
next
  assume l: "parseRepo (VString s) = Inl e"
  then show e: "e = Error (js ''Invalid repo string: '' @ s)"
    by (auto simp: parseRepo_def Let_def split: if_splits)
  assume "truthy (env_GITHUB_TOKEN w) \<and> truthy (env_OPENAI_API_KEY w) \<and> s \<noteq> []
          \<and> repoArg w = Some (VString s)"
  with l e show "resolve w = Inl (Threw (Error (js ''Invalid repo string: '' @ s)))"
    using resolve_parseRepo_throws [of w "VString s" e] by (simp add: truthy_value_def)
qed

theorem parseRepo_extra_segment_counterexample:
  "count_list (js ''a/b/c'') 0x2F = 2
   \<and> parseRepo (VString (js ''a/b/c'')) = Inr (js ''a'', js ''b'')
   \<and> args_repo w_numeric_repo = Some (VNumber (Number True (js ''123'')))
   \<and> resolve w_numeric_repo = Inl (Threw TypeError)"
  by (simp add: parseRepo_def resolve_def repoArg_def getEnv_def w_numeric_repo_def w_base_def
      truthy_value_def truthy_def js_def)

theorem parseRepo_first_two_segments_witness:
  "parseRepo (VString (js ''octo/cat'')) = Inr (js ''octo'', js ''cat'')
   \<and> parseRepo (VString (js ''octo/cat/extra'')) = Inr (js ''octo'', js ''cat'')
   \<and> parseRepo (VString (js ''octocat'')) = Inl (Error (js ''Invalid repo string: octocat''))
   \<and> resolve w_bad_repo = Inl (Threw (Error (js ''Invalid repo string: octocat'')))"
proof -
  have h: "js ''octo'' \<noteq> [] \<and> js ''cat'' \<noteq> [] \<and> 0x2F \<notin> set (js ''octo'') \<and> 0x2F \<notin> set (js ''cat'')"
    by (simp add: js_def)
  have e: "parseRepo (VString (js ''octocat'')) = Inl (Error (js ''Invalid repo string: octocat''))"
    by (simp add: parseRepo_def js_def truthy_def)
  have w: "truthy (env_GITHUB_TOKEN w_bad_repo) \<and> truthy (env_OPENAI_API_KEY w_bad_repo)
           \<and> js ''octocat'' \<noteq> []
           \<and> repoArg w_bad_repo = Some (VString (js ''octocat''))"
    by (simp add: w_bad_repo_def w_base_def repoArg_def truthy_value_def truthy_def js_def)
  have a: "js ''octo/cat'' = js ''octo'' @ 0x2F # js ''cat''"
    and b: "js ''octo/cat/extra'' = js ''octo'' @ 0x2F # js ''cat'' @ 0x2F # js ''extra''"
    and c: "js ''Invalid repo string: octocat'' = js ''Invalid repo string: '' @ js ''octocat''"
    by (simp_all add: js_def)
  from parseRepo_first_two_segments
         [of "js ''octo''" "js ''cat''" "js ''extra''" "js ''octocat''"
             "Error (js ''Invalid repo string: octocat'')" w_bad_repo] h e w
  show ?thesis unfolding a b c by blast
qed

section \<open>How a run proceeds\<close>

lemma js_includes_iff: "js_includes s m \<longleftrightarrow> (\<exists>p q. s = p @ m @ q)"
proof (induction s)
  case Nil
  then show ?case by auto
next
  case (Cons c s)
  show ?case
  proof
    assume "js_includes (c # s) m"
    then consider "prefix m (c # s)" | "js_includes s m" by auto
    then show "\<exists>p q. c # s = p @ m @ q"
    proof cases
      case 1
      then obtain q where "c # s = m @ q" by (auto simp: prefix_def)
      then have "c # s = [] @ m @ q" by simp
      then show ?thesis by blast
    next
      case 2
      with Cons.IH obtain p q where "s = p @ m @ q" by blast
      then have "c # s = (c # p) @ m @ q" by simp
      then show ?thesis by blast
    qed
  next
    assume "\<exists>p q. c # s = p @ m @ q"
    then obtain p q where e: "c # s = p @ m @ q" by blast
    show "js_includes (c # s) m"
    proof (cases p)
      case Nil
      with e have "prefix m (c # s)" by (simp add: prefix_def)
      then show ?thesis by simp
    next
      case (Cons d p')
      with e have "s = p' @ m @ q" by simp
      with Cons.IH show ?thesis by auto
    qed
  qed
qed

lemma existing_iff:
  "existing cs \<noteq> None \<longleftrightarrow> (\<exists>x\<in>set cs. \<exists>p q. comment_body x = JStr (p @ MARKER @ q))"
proof -
  have t: "(case comment_body x of JStr b \<Rightarrow> js_includes b MARKER | _ \<Rightarrow> False)
           \<longleftrightarrow> (\<exists>p q. comment_body x = JStr (p @ MARKER @ q))" for x :: comment
    by (cases "comment_body x") (simp_all add: js_includes_iff)
  have "existing cs \<noteq> None \<longleftrightarrow>
        (\<exists>x\<in>set cs. case comment_body x of JStr b \<Rightarrow> js_includes b MARKER | _ \<Rightarrow> False)"
    by (auto simp: existing_def find_None_iff)
  then show ?thesis by (simp add: t)
qed

lemma main_upto_image_existing:
  assumes "resolve w = Inr c" "res_pr w = Ok pr" "res_files w = Ok fs" "res_comments w = Ok cs"
    and "existing cs \<noteq> None"
  shows "main_upto_image rest w = \<lparr>calls = first_gets c, result = Returned\<rparr>"
  using assms by (simp add: main_upto_image_def fetchJson_def after_def finished_def first_gets_def)

lemma main_upto_image_reached:
  assumes "resolve w = Inr c" "res_pr w = Ok pr" "res_files w = Ok fs" "res_comments w = Ok cs"
    and "existing cs = None" and "res_generateText w = Inr structured"
    and "res_images_generate w = Inr img"
  shows "main_upto_image rest w =
     and_then \<lparr>calls = first_gets c @ [GenerateText promptSystem (promptUser (prSummary pr fs)),
                        ImagesGenerate (fst (parseStructured (JSON_parse w) structured))],
               result = ()\<rparr>
       (\<lambda>_. rest w c pr (snd (parseStructured (JSON_parse w) structured)) img)"
  using assms
  by (simp add: main_upto_image_def fetchJson_def after_def finished_def first_gets_def and_then_def
      split: prod.splits)


lemma image_reached:
  assumes "ImagesGenerate p \<in> set (calls (main_upto_image rest w))"
    and "\<And>c pr cap img. ImagesGenerate p \<notin> set (calls (rest w c pr cap img))"
  shows "\<exists>c pr fs cs structured. resolve w = Inr c \<and> res_pr w = Ok pr \<and> res_files w = Ok fs
           \<and> res_comments w = Ok cs \<and> existing cs = None \<and> res_generateText w = Inr structured
           \<and> p = fst (parseStructured (JSON_parse w) structured)"
  using assms
  by (auto simp: main_upto_image_def fetchJson_def Let_def
      split: sum.splits fetch_result.splits if_splits prod.splits)

lemma post_reached:
  assumes "Post u b \<in> set (calls (main_upto_image rest w))"
  shows "\<exists>c pr cap img. Post u b \<in> set (calls (rest w c pr cap img))"
  using assms
  by (auto simp: main_upto_image_def fetchJson_def Let_def
      split: sum.splits fetch_result.splits if_splits prod.splits)

lemma put_reached:
  assumes "Put u b \<in> set (calls (main_upto_image rest w))"
  shows "\<exists>c pr cap img. Put u b \<in> set (calls (rest w c pr cap img))"
  using assms
  by (auto simp: main_upto_image_def fetchJson_def Let_def
      split: sum.splits fetch_result.splits if_splits prod.splits)


lemma resolve_w_base: "resolve w_base = Inr c_example"
  by (simp add: resolve_def repoArg_def w_base_def c_example_def getEnv_def truthy_def
      parseRepo_def truthy_value_def render_def js_def)

lemma main_rest_no_image: "ImagesGenerate p \<notin> set (calls (main_rest w c pr cap img))"
  by (simp add: main_rest_def Let_def split: sum.splits)


lemma upload_to_head_calls:
  "k \<in> set (calls (upload_to_head w c b64 headRef)) \<Longrightarrow> \<exists>u b. k = Put u b"
  by (auto simp: upload_to_head_def Let_def split: option.splits sum.splits if_splits)

lemma fallback_calls:
  "k \<in> set (calls (fallback w c pr img)) \<Longrightarrow> \<exists>u b. k = Put u b"
  by (auto simp: fallback_def Let_def dest: upload_to_head_calls split: if_splits)

lemma main_rest_part_000_no_image:
  "ImagesGenerate p \<notin> set (calls (main_rest_part_000 w c pr cap img))"
  by (auto simp: main_rest_part_000_def Let_def dest: fallback_calls split: sum.splits)


lemma join_Cons_prefix: "prefix x (join (x # xs) sep)"
  by (cases xs) simp_all

lemma main_rest_posts:
  "Post u b \<in> set (calls (main_rest w c pr cap img)) \<Longrightarrow>
     \<exists>imageUrl. resolveImageUrl img = Inr imageUrl \<and> b = CommentBody (compose cap imageUrl)"
  by (auto simp: main_rest_def Let_def split: sum.splits)

lemma main_rest_part_000_posts:
  "Post u b \<in> set (calls (main_rest_part_000 w c pr cap img)) \<Longrightarrow>
     \<exists>imageUrl. b = CommentBody (compose_part_000 (take 500 cap) imageUrl)"
  by (auto simp: main_rest_part_000_def Let_def dest: fallback_calls split: sum.splits)

section \<open>The idempotency check\<close>

lemma main_existing:
  assumes "resolve w = Inr c" "res_pr w = Ok pr" "res_files w = Ok fs" "res_comments w = Ok cs"
    and "x \<in> set cs" and "comment_body x = JStr (p @ MARKER @ q)"
  shows "main_upto_image rest w = \<lparr>calls = first_gets c, result = Returned\<rparr>"
proof -
  from assms(5,6) have "existing cs \<noteq> None"
    unfolding existing_iff by blast
  with assms(1-4) show ?thesis by (rule main_upto_image_existing)
qed

lemma first_gets_only_gets: "k \<in> set (first_gets c) \<Longrightarrow> \<exists>u. k = Get u"
  by (auto simp: first_gets_def)

text \<open>
  Claim C1. When a run has resolved its context and fetched the pull request, its files
  and the list of existing comments, and some comment of that list has a string body that
  contains the marker, then the run makes the three reads and nothing else (no
  image-generation call, no comment post), returns, and the exit code is zero. This holds
  for both entry points.
\<close>

theorem marker_short_circuits:
  assumes "resolve w = Inr c" and "res_pr w = Ok pr" and "res_files w = Ok fs"
    and "res_comments w = Ok cs"
    and "x \<in> set cs" and "comment_body x = JStr (p @ MARKER @ q)"
  shows "calls (main w) = first_gets c \<and> result (main w) = Returned \<and> exit_code (main w) = 0
         \<and> (\<forall>prompt. ImagesGenerate prompt \<notin> set (calls (main w)))
         \<and> (\<forall>u b. Post u b \<notin> set (calls (main w)))
         \<and> calls (main_part_000 w) = first_gets c \<and> result (main_part_000 w) = Returned
         \<and> exit_code (main_part_000 w) = 0
         \<and> (\<forall>prompt. ImagesGenerate prompt \<notin> set (calls (main_part_000 w)))
         \<and> (\<forall>u b. Post u b \<notin> set (calls (main_part_000 w)))"
proof -
  have m: "main w = \<lparr>calls = first_gets c, result = Returned\<rparr>"
    unfolding main_def using assms by (rule main_existing)
  have m0: "main_part_000 w = \<lparr>calls = first_gets c, result = Returned\<rparr>"
    unfolding main_part_000_def using assms by (rule main_existing)
  have g: "\<forall>prompt. ImagesGenerate prompt \<notin> set (first_gets c)"
    and h: "\<forall>u b. Post u b \<notin> set (first_gets c)"
    by (auto dest: first_gets_only_gets)
  from m m0 g h show ?thesis by (simp add: exit_code_def)
qed

lemma resolve_response_update [simp]:
  "resolve (w\<lparr>res_pr := a\<rparr>) = resolve w"
  "resolve (w\<lparr>res_comments := b\<rparr>) = resolve w"
  "resolve (w\<lparr>res_generateText := d\<rparr>) = resolve w"
  "resolve (w\<lparr>res_images_generate := e\<rparr>) = resolve w"
  by (simp_all add: resolve_def repoArg_def Let_def cong: if_cong sum.case_cong)

lemma compose_starts_with_marker: "\<exists>q. compose cap u = [] @ MARKER @ q"
  by (simp add: compose_def)

theorem marker_short_circuits_witness:
  "calls (main w_marked) = first_gets c_example \<and> exit_code (main w_marked) = 0
   \<and> (\<forall>prompt. ImagesGenerate prompt \<notin> set (calls (main w_marked)))
   \<and> (\<forall>u b. Post u b \<notin> set (calls (main w_marked)))
   \<and> calls (main_part_000 w_marked) = first_gets c_example
   \<and> exit_code (main_part_000 w_marked) = 0"
proof -
  let ?x = "\<lparr>comment_body = JStr (compose (js ''A lighthearted take on this PR'')
                                       (js ''https://img.example/1.png''))\<rparr>"
  let ?cs = "[\<lparr>comment_body = JStr (js ''LGTM'')\<rparr>, ?x]"
  obtain q where q: "compose (js ''A lighthearted take on this PR'')
                       (js ''https://img.example/1.png'') = [] @ MARKER @ q"
    using compose_starts_with_marker by blast
  have r: "resolve w_marked = Inr c_example"
    using resolve_w_base by (simp add: w_marked_def)
  have 1: "res_pr w_marked = Ok pr_same_repo"
    and 2: "res_files w_marked = Ok [\<lparr>file_status = js ''modified'', file_filename = js ''src/index.ts''\<rparr>]"
    and 3: "res_comments w_marked = Ok ?cs"
    by (simp_all add: w_marked_def w_base_def)
  have 4: "?x \<in> set ?cs" by simp
  have 5: "comment_body ?x = JStr ([] @ MARKER @ q)" using q by simp
  from marker_short_circuits [OF r 1 2 3 4 5] show ?thesis by blast
qed

section \<open>Posted comments carry the marker\<close>

lemma compose_prefix: "prefix MARKER (compose cap u)"
  unfolding compose_def by (rule join_Cons_prefix)

lemma compose_part_000_prefix: "prefix MARKER (compose_part_000 cap u)"
  unfolding compose_part_000_def by (rule join_Cons_prefix)

lemma posted_by_main:
  assumes "Post u b \<in> set (calls (main w))"
  shows "\<exists>cap imageUrl. b = CommentBody (compose cap imageUrl)"
proof -
  from assms obtain c pr cap img where "Post u b \<in> set (calls (main_rest w c pr cap img))"
    unfolding main_def by (blast dest: post_reached)
  then show ?thesis by (blast dest: main_rest_posts)
qed

lemma posted_by_main_part_000:
  assumes "Post u b \<in> set (calls (main_part_000 w))"
  shows "\<exists>cap imageUrl. b = CommentBody (compose_part_000 cap imageUrl)"
proof -
  from assms obtain c pr cap img where
    "Post u b \<in> set (calls (main_rest_part_000 w c pr cap img))"
    unfolding main_part_000_def by (blast dest: post_reached)
  then show ?thesis by (blast dest: main_rest_part_000_posts)
qed

text \<open>
  Claim C9. Whatever either entry point posts is a comment whose body begins with the
  marker. So when a later run (of either entry point) resolves its context and fetches
  the pull request, its files and a comment list in which a comment with that body occurs,
  it makes the three reads only, posts nothing and exits with code zero.
\<close>

theorem posted_comment_stops_next_run:
  assumes "Post u payload \<in> set (calls (main w)) \<or> Post u payload \<in> set (calls (main_part_000 w))"
  shows "\<exists>body. payload = CommentBody body \<and> prefix MARKER body
           \<and> (\<forall>w' c' pr' fs' cs' x.
                 resolve w' = Inr c' \<and> res_pr w' = Ok pr' \<and> res_files w' = Ok fs'
                 \<and> res_comments w' = Ok cs' \<and> x \<in> set cs' \<and> comment_body x = JStr body \<longrightarrow>
                 calls (main w') = first_gets c' \<and> exit_code (main w') = 0
                 \<and> (\<forall>u' b'. Post u' b' \<notin> set (calls (main w')))
                 \<and> calls (main_part_000 w') = first_gets c' \<and> exit_code (main_part_000 w') = 0
                 \<and> (\<forall>u' b'. Post u' b' \<notin> set (calls (main_part_000 w'))))"
proof -
  from assms obtain body where b: "payload = CommentBody body" and p: "prefix MARKER body"
    using compose_prefix compose_part_000_prefix
    by (blast dest: posted_by_main posted_by_main_part_000)
  from p obtain q where q: "body = [] @ MARKER @ q"
    by (auto simp: prefix_def)
  have "calls (main w') = first_gets c' \<and> exit_code (main w') = 0
        \<and> (\<forall>u' b'. Post u' b' \<notin> set (calls (main w')))
        \<and> calls (main_part_000 w') = first_gets c' \<and> exit_code (main_part_000 w') = 0
        \<and> (\<forall>u' b'. Post u' b' \<notin> set (calls (main_part_000 w')))"
    if h: "resolve w' = Inr c' \<and> res_pr w' = Ok pr' \<and> res_files w' = Ok fs'
           \<and> res_comments w' = Ok cs' \<and> x \<in> set cs' \<and> comment_body x = JStr body"
    for w' c' pr' fs' cs' x
  proof -
    from h q have e: "comment_body x = JStr ([] @ MARKER @ q)" by simp
    from h have m: "main w' = \<lparr>calls = first_gets c', result = Returned\<rparr>"
      unfolding main_def using e by (blast intro: main_existing)
    from h have m0: "main_part_000 w' = \<lparr>calls = first_gets c', result = Returned\<rparr>"
      unfolding main_part_000_def using e by (blast intro: main_existing)
    have "\<forall>u' b'. Post u' b' \<notin> set (first_gets c')"
      by (auto dest: first_gets_only_gets)
    with m m0 show ?thesis by (simp add: exit_code_def)
  qed
  with b p show ?thesis by blast
qed

lemma parse_example_prose: "parse_example (js ''just some prose'') = None"
  by (simp add: parse_example_def long_response_def shadowed_response_def js_def)

lemma main_w_base_posts:
  "Post (js ''https://api.github.com/repos/octo/cat/issues/123/comments'')
        (CommentBody (compose (js ''A lighthearted take on this PR'')
                              (js ''https://img.example/1.png'')))
   \<in> set (calls (main w_base))"
proof -
  have "main w_base =
     and_then \<lparr>calls = first_gets c_example
                  @ [GenerateText promptSystem (promptUser (prSummary pr_same_repo
                       [\<lparr>file_status = js ''modified'', file_filename = js ''src/index.ts''\<rparr>])),
                     ImagesGenerate (fst (parseStructured (JSON_parse w_base) (js ''just some prose'')))],
               result = ()\<rparr>
       (\<lambda>_. main_rest w_base c_example pr_same_repo
               (snd (parseStructured (JSON_parse w_base) (js ''just some prose'')))
               \<lparr>data = Some [\<lparr>url = Some (js ''https://img.example/1.png''), b64_json = None\<rparr>]\<rparr>)"
    unfolding main_def
    by (rule main_upto_image_reached [OF resolve_w_base, where cs = "[]"])
       (simp_all add: w_base_def existing_def)
  moreover have "JSON_parse w_base = parse_example"
    by (simp add: w_base_def)
  moreover have "resolveImageUrl \<lparr>data = Some [\<lparr>url = Some (js ''https://img.example/1.png''),
                                                 b64_json = None\<rparr>]\<rparr>
                 = Inr (js ''https://img.example/1.png'')"
    by (simp add: resolveImageUrl_def first_url_def first_datum_def truthy_def js_def)
  moreover have "ctx_apiBase c_example @ js ''/issues/'' @ ctx_prNumber c_example
                 @ js ''/comments'' = js ''https://api.github.com/repos/octo/cat/issues/123/comments''"
    by (simp add: c_example_def js_def)
  ultimately show ?thesis
    by (simp add: main_rest_def parseStructured_def try_parse_def parse_example_prose Let_def)
qed

theorem posted_comment_stops_next_run_witness:
  "prefix MARKER (compose (js ''A lighthearted take on this PR'') (js ''https://img.example/1.png''))
   \<and> calls (main w_marked) = first_gets c_example \<and> exit_code (main w_marked) = 0
   \<and> (\<forall>u b. Post u b \<notin> set (calls (main w_marked)))
   \<and> calls (main_part_000 w_marked) = first_gets c_example
   \<and> exit_code (main_part_000 w_marked) = 0
   \<and> (\<forall>u b. Post u b \<notin> set (calls (main_part_000 w_marked)))"
proof -
  let ?B = "compose (js ''A lighthearted take on this PR'') (js ''https://img.example/1.png'')"
  let ?x = "\<lparr>comment_body = JStr ?B\<rparr>"
  let ?cs = "[\<lparr>comment_body = JStr (js ''LGTM'')\<rparr>, ?x]"
  have rerun: "resolve w_marked = Inr c_example \<and> res_pr w_marked = Ok pr_same_repo
     \<and> res_files w_marked = Ok [\<lparr>file_status = js ''modified'', file_filename = js ''src/index.ts''\<rparr>]
     \<and> res_comments w_marked = Ok ?cs \<and> ?x \<in> set ?cs \<and> comment_body ?x = JStr ?B"
  proof -
    have "resolve w_marked = Inr c_example"
      using resolve_w_base by (simp add: w_marked_def)
    moreover have "res_pr w_marked = Ok pr_same_repo"
      "res_files w_marked = Ok [\<lparr>file_status = js ''modified'', file_filename = js ''src/index.ts''\<rparr>]"
      "res_comments w_marked = Ok ?cs"
      by (simp_all add: w_marked_def w_base_def)
    ultimately show ?thesis by simp
  qed
  from posted_comment_stops_next_run [OF disjI1 [OF main_w_base_posts]] rerun
  show ?thesis by blast
qed

section \<open>Parsing the generated text\<close>

lemma generation_calls_made:
  assumes "resolve w = Inr c" "res_pr w = Ok pr" "res_files w = Ok fs" "res_comments w = Ok cs"
    and "existing cs = None" and "res_generateText w = Inr structured"
  shows "GenerateText promptSystem (promptUser (prSummary pr fs))
           \<in> set (calls (main_upto_image rest w))"
    and "ImagesGenerate (fst (parseStructured (JSON_parse w) structured))
           \<in> set (calls (main_upto_image rest w))"
  using assms
  by (simp_all add: main_upto_image_def fetchJson_def split: prod.splits)


lemma image_reached_main:
  assumes "ImagesGenerate p \<in> set (calls (main w))"
  shows "\<exists>c pr fs cs structured. resolve w = Inr c \<and> res_pr w = Ok pr \<and> res_files w = Ok fs
           \<and> res_comments w = Ok cs \<and> existing cs = None \<and> res_generateText w = Inr structured
           \<and> p = fst (parseStructured (JSON_parse w) structured)"
  using assms unfolding main_def by (rule image_reached) (rule main_rest_no_image)

lemma image_reached_main_part_000:
  assumes "ImagesGenerate p \<in> set (calls (main_part_000 w))"
  shows "\<exists>c pr fs cs structured. resolve w = Inr c \<and> res_pr w = Ok pr \<and> res_files w = Ok fs
           \<and> res_comments w = Ok cs \<and> existing cs = None \<and> res_generateText w = Inr structured
           \<and> p = fst (parseStructured (JSON_parse w) structured)"
  using assms unfolding main_part_000_def by (rule image_reached) (rule main_rest_part_000_no_image)

lemma post_caption:
  assumes "Post u b \<in> set (calls (main_upto_image rest w))"
    and "res_generateText w = Inr structured"
  shows "\<exists>c pr img. Post u b
           \<in> set (calls (rest w c pr (snd (parseStructured (JSON_parse w) structured)) img))"
  using assms
  by (auto simp: main_upto_image_def fetchJson_def Let_def
      split: sum.splits fetch_result.splits if_splits prod.splits)

lemma parseStructured_unparsable:
  "parse structured = None \<Longrightarrow>
     parseStructured parse structured = (take 800 structured, js ''A lighthearted take on this PR'')"
  by (simp add: parseStructured_def try_parse_def)

lemma default_caption_short: "take 500 (js ''A lighthearted take on this PR'') = js ''A lighthearted take on this PR''"
  by (simp add: js_def)


lemma w_base_reads:
  "res_pr w_base = Ok pr_same_repo"
  "res_files w_base = Ok [\<lparr>file_status = js ''modified'', file_filename = js ''src/index.ts''\<rparr>]"
  "res_comments w_base = Ok []"
  "existing [] = None"
  by (simp_all add: w_base_def existing_def)


lemma parseStructured_bounds:
  "length (fst (parseStructured parse structured)) \<le> 800
   \<and> length (snd (parseStructured parse structured)) \<le> 200"
  by (auto simp: parseStructured_def try_parse_def js_def split: sum.splits option.splits)

lemma parseStructured_strings:
  assumes "parse structured = Some (JObj ps)"
    and "map_of ps (js ''imagePrompt'') = Some (JStr a)"
    and "map_of ps (js ''caption'') = Some (JStr b)"
  shows "parseStructured parse structured = (take 800 a, take 200 b)"
  using assms by (simp add: parseStructured_def try_parse_def String_or_empty_def)

lemma parseStructured_shadowed:
  assumes "parse structured = Some (JObj ps)"
    and "map_of ps (js ''imagePrompt'') = Some (JObj qs)"
    and "map_of qs (js ''toString'') \<noteq> None"
  shows "parseStructured parse structured
           = (take 800 structured, js ''A lighthearted take on this PR'')"
  using assms by (simp add: parseStructured_def try_parse_def String_or_empty_def)

lemma parseStructured_null:
  assumes "parse structured = Some JNull"
  shows "parseStructured parse structured
           = (take 800 structured, js ''A lighthearted take on this PR'')"
  using assms by (simp add: parseStructured_def try_parse_def)

text \<open>
  Claim C8. When the generated text parses as JSON, the image prompt has at most 800 code
  units and the caption at most 200, whatever the parsed value holds. For an object whose
  \<open>imagePrompt\<close> and \<open>caption\<close> are strings they are the first 800 and the first 200 code units
  of these strings; when the parsed value is \<open>null\<close>, or \<open>imagePrompt\<close> is an object with an
  own \<open>toString\<close> property, the \<open>try\<close> block throws and they are the first 800 code units of
  the raw text and the default caption, within the same bounds. Hence every
  image-generation call of such a run has a prompt of at most 800 code units, and every
  comment it posts has a caption line built from at most 200. This holds for both entry
  points.
\<close>

theorem parsed_text_is_truncated:
  assumes "res_generateText w = Inr structured"
    and "JSON_parse w structured = Some parsed"
  shows "length (fst (parseStructured (JSON_parse w) structured)) \<le> 800
         \<and> length (snd (parseStructured (JSON_parse w) structured)) \<le> 200
         \<and> (\<forall>ps a b. parsed = JObj ps \<and> map_of ps (js ''imagePrompt'') = Some (JStr a)
               \<and> map_of ps (js ''caption'') = Some (JStr b) \<longrightarrow>
               parseStructured (JSON_parse w) structured = (take 800 a, take 200 b))
         \<and> (\<forall>ps qs. parsed = JObj ps \<and> map_of ps (js ''imagePrompt'') = Some (JObj qs)
               \<and> map_of qs (js ''toString'') \<noteq> None \<longrightarrow>
               parseStructured (JSON_parse w) structured
                 = (take 800 structured, js ''A lighthearted take on this PR''))
         \<and> (parsed = JNull \<longrightarrow>
               parseStructured (JSON_parse w) structured
                 = (take 800 structured, js ''A lighthearted take on this PR''))
         \<and> (\<forall>p. ImagesGenerate p \<in> set (calls (main w)) \<longrightarrow> length p \<le> 800)
         \<and> (\<forall>p. ImagesGenerate p \<in> set (calls (main_part_000 w)) \<longrightarrow> length p \<le> 800)
         \<and> (\<forall>u body. Post u (CommentBody body) \<in> set (calls (main w)) \<longrightarrow>
               (\<exists>cap imageUrl. length cap \<le> 200
                  \<and> body = join [MARKER, nl,
                                  (if cap \<noteq> [] then js ''> '' @ cap @ nl else []),
                                  [],
                                  js ''![Funny PR Image]('' @ imageUrl @ js '')'',
                                  [],
                                  attribution] nl))
         \<and> (\<forall>u body. Post u (CommentBody body) \<in> set (calls (main_part_000 w)) \<longrightarrow>
               (\<exists>cap imageUrl. length cap \<le> 200
                  \<and> body = join [MARKER, nl,
                                  (if cap \<noteq> [] then js ''> '' @ cap @ nl else []),
                                  (if truthy imageUrl
                                   then nl @ js ''![Funny PR Image]('' @ the imageUrl @ js '')'' @ nl
                                   else nl @ js ''(Generated image unavailable)'' @ nl),
                                  attribution] nl))"
proof -
  let ?ps = "parseStructured (JSON_parse w) structured"
  note b = parseStructured_bounds [of "JSON_parse w" structured]
  have o: "\<forall>ps a b. parsed = JObj ps \<and> map_of ps (js ''imagePrompt'') = Some (JStr a)
               \<and> map_of ps (js ''caption'') = Some (JStr b) \<longrightarrow> ?ps = (take 800 a, take 200 b)"
    using assms(2) by (auto intro: parseStructured_strings)
  have t: "\<forall>ps qs. parsed = JObj ps \<and> map_of ps (js ''imagePrompt'') = Some (JObj qs)
               \<and> map_of qs (js ''toString'') \<noteq> None \<longrightarrow>
               ?ps = (take 800 structured, js ''A lighthearted take on this PR'')"
    using assms(2) by (auto intro: parseStructured_shadowed)
  have n: "parsed = JNull \<longrightarrow> ?ps = (take 800 structured, js ''A lighthearted take on this PR'')"
    using assms(2) by (auto intro: parseStructured_null)
  have i: "\<forall>p. ImagesGenerate p \<in> set (calls (main w)) \<longrightarrow> length p \<le> 800"
    using assms(1) b by (auto dest!: image_reached_main)
  have i0: "\<forall>p. ImagesGenerate p \<in> set (calls (main_part_000 w)) \<longrightarrow> length p \<le> 800"
    using assms(1) b by (auto dest!: image_reached_main_part_000)
  have p: "\<exists>cap imageUrl. length cap \<le> 200
             \<and> body = join [MARKER, nl, (if cap \<noteq> [] then js ''> '' @ cap @ nl else []), [],
                             js ''![Funny PR Image]('' @ imageUrl @ js '')'', [], attribution] nl"
    if "Post u (CommentBody body) \<in> set (calls (main w))" for u body
  proof -
    from post_caption [OF that [unfolded main_def] assms(1)]
    obtain c pr img where "Post u (CommentBody body) \<in> set (calls (main_rest w c pr (snd ?ps) img))"
      by blast
    from main_rest_posts [OF this] obtain imageUrl where "body = compose (snd ?ps) imageUrl"
      by auto
    with b show ?thesis unfolding compose_def by blast
  qed
  have p0: "\<exists>cap imageUrl. length cap \<le> 200
             \<and> body = join [MARKER, nl, (if cap \<noteq> [] then js ''> '' @ cap @ nl else []),
                             (if truthy imageUrl
                              then nl @ js ''![Funny PR Image]('' @ the imageUrl @ js '')'' @ nl
                              else nl @ js ''(Generated image unavailable)'' @ nl),
                             attribution] nl"
    if "Post u (CommentBody body) \<in> set (calls (main_part_000 w))" for u body
  proof -
    from post_caption [OF that [unfolded main_part_000_def] assms(1)]
    obtain c pr img where
      "Post u (CommentBody body) \<in> set (calls (main_rest_part_000 w c pr (snd ?ps) img))"
      by blast
    from main_rest_part_000_posts [OF this] obtain imageUrl where
      "body = compose_part_000 (take 500 (snd ?ps)) imageUrl"
      by auto
    moreover have "length (take 500 (snd ?ps)) \<le> 200"
      using b by simp
    ultimately show ?thesis unfolding compose_part_000_def by blast
  qed
  from b o t n i i0 p p0 show ?thesis by blast
qed

lemma parse_example_long:
  "parse_example long_response
     = Some (JObj [(js ''imagePrompt'', JStr (replicate 900 0x61)),
                   (js ''caption'', JStr (replicate 300 0x62))])"
proof -
  have \<open>length long_response
          \<noteq> length (js ''{"imagePrompt":"a cat coding","caption":"meow-ge requests"}'')\<close>
    by (simp add: long_response_def js_def)
  then have \<open>long_response \<noteq> js ''{"imagePrompt":"a cat coding","caption":"meow-ge requests"}''\<close>
    by auto
  then show ?thesis by (simp add: parse_example_def)
qed

lemma parse_example_shadowed:
  "parse_example shadowed_response
     = Some (JObj [(js ''imagePrompt'', JObj [(js ''toString'', JStr (js ''x''))]),
                   (js ''caption'', JStr (js ''hi''))])"
proof -
  have \<open>length shadowed_response
          \<noteq> length (js ''{"imagePrompt":"a cat coding","caption":"meow-ge requests"}'')\<close>
    and "length shadowed_response \<noteq> length long_response"
    by (simp_all add: shadowed_response_def long_response_def js_def)
  then have \<open>shadowed_response \<noteq> js ''{"imagePrompt":"a cat coding","caption":"meow-ge requests"}''\<close>
    and "shadowed_response \<noteq> long_response"
    by auto
  then show ?thesis by (simp add: parse_example_def)
qed

theorem parsed_text_is_truncated_witness:
  "parseStructured (JSON_parse w_long) long_response = (replicate 800 0x61, replicate 200 0x62)
   \<and> length (fst (parseStructured (JSON_parse w_long) long_response)) \<le> 800
   \<and> length (snd (parseStructured (JSON_parse w_long) long_response)) \<le> 200
   \<and> parseStructured (JSON_parse w_shadowed) shadowed_response
       = (shadowed_response, js ''A lighthearted take on this PR'')"
proof -
  let ?ps = "[(js ''imagePrompt'', JStr (replicate 900 0x61)),
              (js ''caption'', JStr (replicate 300 0x62))]"
  let ?qs = "[(js ''toString'', JStr (js ''x''))]"
  let ?rs = "[(js ''imagePrompt'', JObj ?qs), (js ''caption'', JStr (js ''hi''))]"
  have t: "res_generateText w_long = Inr long_response"
    by (simp add: w_long_def)
  have j: "JSON_parse w_long long_response = Some (JObj ?ps)"
    using parse_example_long by (simp add: w_long_def w_base_def)
  have v: "map_of ?ps (js ''imagePrompt'') = Some (JStr (replicate 900 0x61))"
    "map_of ?ps (js ''caption'') = Some (JStr (replicate 300 0x62))"
    by (simp_all add: js_def)
  have k: "take 800 (replicate 900 (0x61 :: 16 word)) = replicate 800 0x61"
    "take 200 (replicate 300 (0x62 :: 16 word)) = replicate 200 0x62"
    by simp_all
  have t': "res_generateText w_shadowed = Inr shadowed_response"
    by (simp add: w_shadowed_def)
  have j': "JSON_parse w_shadowed shadowed_response = Some (JObj ?rs)"
    using parse_example_shadowed by (simp add: w_shadowed_def w_base_def)
  have v': "map_of ?rs (js ''imagePrompt'') = Some (JObj ?qs)" "map_of ?qs (js ''toString'') \<noteq> None"
    by simp_all
  have k': "take 800 shadowed_response = shadowed_response"
    by (simp add: shadowed_response_def js_def)
  from parsed_text_is_truncated [OF t j] v
  have 1: "parseStructured (JSON_parse w_long) long_response
             = (take 800 (replicate 900 0x61), take 200 (replicate 300 0x62))
           \<and> length (fst (parseStructured (JSON_parse w_long) long_response)) \<le> 800
           \<and> length (snd (parseStructured (JSON_parse w_long) long_response)) \<le> 200"
    by blast
  from parsed_text_is_truncated [OF t' j'] v'
  have 2: "parseStructured (JSON_parse w_shadowed) shadowed_response
             = (take 800 shadowed_response, js ''A lighthearted take on this PR'')"
    by blast
  from 1 2 show ?thesis unfolding k k' by blast
qed

section \<open>The image reference\<close>

lemma after_image:
  assumes "ImagesGenerate p \<in> set (calls (main_upto_image rest w))"
    and "\<And>c pr cap img. ImagesGenerate p \<notin> set (calls (rest w c pr cap img))"
    and "res_images_generate w = Inr img"
  shows "\<exists>c pr fs structured.
           resolve w = Inr c \<and> res_pr w = Ok pr \<and> res_files w = Ok fs
           \<and> res_generateText w = Inr structured
           \<and> p = fst (parseStructured (JSON_parse w) structured)
           \<and> calls (main_upto_image rest w)
               = first_gets c @ [GenerateText promptSystem (promptUser (prSummary pr fs)),
                                 ImagesGenerate p]
                 @ calls (rest w c pr (snd (parseStructured (JSON_parse w) structured)) img)
           \<and> result (main_upto_image rest w)
               = result (rest w c pr (snd (parseStructured (JSON_parse w) structured)) img)"
proof -
  from image_reached [OF assms(1,2)] obtain c pr fs cs structured where
    r: "resolve w = Inr c" "res_pr w = Ok pr" "res_files w = Ok fs" "res_comments w = Ok cs"
       "existing cs = None" "res_generateText w = Inr structured"
    and p: "p = fst (parseStructured (JSON_parse w) structured)"
    by blast
  from main_upto_image_reached [OF r assms(3), of rest] p r show ?thesis
    by simp
qed

lemma main_rest_cases:
  "main_rest w c pr cap img =
     (case resolveImageUrl img of
        Inl e \<Rightarrow> \<lparr>calls = [], result = Threw e\<rparr>
      | Inr imageUrl \<Rightarrow>
          \<lparr>calls = [Post (postUrl c) (CommentBody (compose cap imageUrl))],
           result = (case postJson (postUrl c) (res_post w) of Inl e \<Rightarrow> Threw e
                     | Inr _ \<Rightarrow> Returned)\<rparr>)"
  by (simp add: main_rest_def postUrl_def Let_def after_def finished_def split: sum.splits)

lemma main_rest_part_000_cases:
  "main_rest_part_000 w c pr cap img =
     \<lparr>calls = calls (fallback w c pr img)
               @ [Post (postUrl c) (CommentBody (compose_part_000 (take 500 cap)
                                                   (result (fallback w c pr img))))],
      result = (case postJson (postUrl c) (res_post w) of Inl e \<Rightarrow> Threw e
                | Inr _ \<Rightarrow> Returned)\<rparr>"
  by (simp add: main_rest_part_000_def postUrl_def Let_def after_def finished_def and_then_def
      split: sum.splits)

lemma resolveImageUrl_cases:
  "resolveImageUrl img =
     (if truthy (first_url img) then Inr (the (first_url img))
      else if truthy (first_b64 img) then Inr (js ''data:image/png;base64,'' @ the (first_b64 img))
      else Inl (Error (js ''OpenAI did not return an image URL or data'')))"
  by (simp add: resolveImageUrl_def Let_def truthy_def js_def)

lemma fallback_skipped:
  assumes "\<not> truthy (first_url img)"
    and "\<not> truthy (first_b64 img) \<or> pr_head_repo_full_name pr \<noteq> pr_base_repo_full_name pr
         \<or> \<not> truthy (pr_head_ref pr)"
  shows "fallback w c pr img = finished (first_url img)"
  using assms by (auto simp: fallback_def Let_def)

lemma compose_part_000_unavailable:
  "\<not> truthy imageUrl \<Longrightarrow>
     compose_part_000 cap imageUrl
       = join [MARKER, nl, (if cap \<noteq> [] then js ''> '' @ cap @ nl else []),
               nl @ js ''(Generated image unavailable)'' @ nl, attribution] nl"
  by (simp add: compose_part_000_def)

lemma postJson_Ok [simp]: "postJson u (Ok v) = Inr v"
  by (simp add: postJson_def)

lemma post_reached_image:
  assumes "Post u b \<in> set (calls (main_upto_image rest w))"
    and "res_images_generate w = Inr img"
  shows "\<exists>c pr cap. Post u b \<in> set (calls (rest w c pr cap img))"
  using assms
  by (auto simp: main_upto_image_def fetchJson_def Let_def
      split: sum.splits fetch_result.splits if_splits prod.splits)

lemma compose_unfolded:
  "compose cap imageUrl
     = join [MARKER, nl, (if cap \<noteq> [] then js ''> '' @ cap @ nl else []), [],
             js ''![Funny PR Image]('' @ imageUrl @ js '')'', [], attribution] nl"
  by (simp add: compose_def)

lemma compose_includes_image:
  "js_includes (compose cap imageUrl) (js ''![Funny PR Image]('' @ imageUrl @ js '')'')"
proof -
  have "compose cap imageUrl
          = (MARKER @ nl @ nl @ nl @ (if cap \<noteq> [] then js ''> '' @ cap @ nl else []) @ nl @ nl)
            @ (js ''![Funny PR Image]('' @ imageUrl @ js '')'') @ (nl @ nl @ attribution)"
    by (simp add: compose_def)
  then show ?thesis unfolding js_includes_iff by blast
qed

text \<open>
  Claim C3, as the code has it. Take a run that made the image-generation call and got a
  response with neither a URL nor base64 data. In src/src/index.ts the run throws
  \<open>OpenAI did not return an image URL or data\<close>: it makes no further call, posts no comment
  and exits with code 1. In the second entry point the run does not fail: it writes
  nothing to the repository, posts the comment with the placeholder
  \<open>(Generated image unavailable)\<close> in place of the image, and exits with code zero when the
  post succeeds. Every comment that src/src/index.ts posts embeds an image URL: its body
  contains \<open>![Funny PR Image](\<close>, the URL and \<open>)\<close>, where the URL is the direct URL when the
  response has one, else the data URL of the base64 payload.
\<close>

theorem missing_image_aborts_index_only:
  "((ImagesGenerate p \<in> set (calls (main w)) \<or> ImagesGenerate p \<in> set (calls (main_part_000 w)))
     \<and> res_images_generate w = Inr img \<and> \<not> truthy (first_url img) \<and> \<not> truthy (first_b64 img)
    \<longrightarrow>
      result (main w) = Threw (Error (js ''OpenAI did not return an image URL or data''))
      \<and> exit_code (main w) = 1
      \<and> (\<forall>u b. Post u b \<notin> set (calls (main w)))
      \<and> (\<exists>c pr fs structured.
            resolve w = Inr c \<and> res_pr w = Ok pr \<and> res_files w = Ok fs
            \<and> res_generateText w = Inr structured
            \<and> calls (main w)
                = first_gets c @ [GenerateText promptSystem (promptUser (prSummary pr fs)),
                                  ImagesGenerate p]
            \<and> calls (main_part_000 w)
                = first_gets c @ [GenerateText promptSystem (promptUser (prSummary pr fs)),
                                  ImagesGenerate p,
                                  Post (postUrl c) (CommentBody (join
                                    [MARKER, nl,
                                     (if take 500 (snd (parseStructured (JSON_parse w) structured)) \<noteq> []
                                      then js ''> '' @ take 500 (snd (parseStructured (JSON_parse w) structured)) @ nl
                                      else []),
                                     nl @ js ''(Generated image unavailable)'' @ nl,
                                     attribution] nl))])
      \<and> (res_post w = Ok () \<longrightarrow> exit_code (main_part_000 w) = 0))
   \<and> (Post u (CommentBody body) \<in> set (calls (main w)) \<and> res_images_generate w = Inr img
       \<longrightarrow> (truthy (first_url img) \<or> truthy (first_b64 img))
           \<and> (\<exists>cap. body = join
                 [MARKER, nl, (if cap \<noteq> [] then js ''> '' @ cap @ nl else []), [],
                  js ''![Funny PR Image]('' @
                    (if truthy (first_url img) then the (first_url img)
                     else js ''data:image/png;base64,'' @ the (first_b64 img)) @ js '')'',
                  [], attribution] nl)
           \<and> js_includes body
                 (js ''![Funny PR Image]('' @
                    (if truthy (first_url img) then the (first_url img)
                     else js ''data:image/png;base64,'' @ the (first_b64 img)) @ js '')''))"
proof (intro conjI impI)
  assume h: "(ImagesGenerate p \<in> set (calls (main w)) \<or> ImagesGenerate p \<in> set (calls (main_part_000 w)))
     \<and> res_images_generate w = Inr img \<and> \<not> truthy (first_url img) \<and> \<not> truthy (first_b64 img)"
  then have img: "res_images_generate w = Inr img"
    and nu: "\<not> truthy (first_url img)" and nb: "\<not> truthy (first_b64 img)"
    by simp_all
  have "\<exists>c pr fs cs structured. resolve w = Inr c \<and> res_pr w = Ok pr \<and> res_files w = Ok fs
           \<and> res_comments w = Ok cs \<and> existing cs = None \<and> res_generateText w = Inr structured
           \<and> p = fst (parseStructured (JSON_parse w) structured)"
    using h by (blast dest: image_reached_main image_reached_main_part_000)
  then obtain c pr fs cs structured where
    r: "resolve w = Inr c" "res_pr w = Ok pr" "res_files w = Ok fs" "res_comments w = Ok cs"
       "existing cs = None" "res_generateText w = Inr structured"
    and p: "p = fst (parseStructured (JSON_parse w) structured)"
    by blast
  let ?cap = "snd (parseStructured (JSON_parse w) structured)"
  have thrown: "main_rest w c pr ?cap img
          = \<lparr>calls = [], result = Threw (Error (js ''OpenAI did not return an image URL or data''))\<rparr>"
    using nu nb by (simp add: main_rest_cases resolveImageUrl_cases)
  have m: "main w = and_then
            \<lparr>calls = first_gets c @ [GenerateText promptSystem (promptUser (prSummary pr fs)),
                                    ImagesGenerate p], result = ()\<rparr>
            (\<lambda>_. main_rest w c pr ?cap img)"
    unfolding main_def p by (rule main_upto_image_reached [OF r img])
  have m0: "main_part_000 w = and_then
            \<lparr>calls = first_gets c @ [GenerateText promptSystem (promptUser (prSummary pr fs)),
                                    ImagesGenerate p], result = ()\<rparr>
            (\<lambda>_. main_rest_part_000 w c pr ?cap img)"
    unfolding main_part_000_def p by (rule main_upto_image_reached [OF r img])
  have f: "fallback w c pr img = finished (first_url img)"
    using nu nb by (simp add: fallback_skipped)
  have cm: "calls (main w) = first_gets c @ [GenerateText promptSystem (promptUser (prSummary pr fs)),
                                            ImagesGenerate p]"
    by (simp add: m thrown)
  show "result (main w) = Threw (Error (js ''OpenAI did not return an image URL or data''))"
    by (simp add: m thrown)
  then show "exit_code (main w) = 1"
    by (simp add: exit_code_def)
  show "\<forall>u b. Post u b \<notin> set (calls (main w))"
    unfolding cm by (auto dest: first_gets_only_gets)
  have cm0: "calls (main_part_000 w)
      = first_gets c @ [GenerateText promptSystem (promptUser (prSummary pr fs)),
                        ImagesGenerate p,
                        Post (postUrl c) (CommentBody (join
                          [MARKER, nl,
                           (if take 500 ?cap \<noteq> [] then js ''> '' @ take 500 ?cap @ nl else []),
                           nl @ js ''(Generated image unavailable)'' @ nl,
                           attribution] nl))]"
    using nu by (simp add: m0 main_rest_part_000_cases f compose_part_000_unavailable)
  from r cm cm0 show "\<exists>c pr fs structured.
            resolve w = Inr c \<and> res_pr w = Ok pr \<and> res_files w = Ok fs
            \<and> res_generateText w = Inr structured
            \<and> calls (main w)
                = first_gets c @ [GenerateText promptSystem (promptUser (prSummary pr fs)),
                                  ImagesGenerate p]
            \<and> calls (main_part_000 w)
                = first_gets c @ [GenerateText promptSystem (promptUser (prSummary pr fs)),
                                  ImagesGenerate p,
                                  Post (postUrl c) (CommentBody (join
                                    [MARKER, nl,
                                     (if take 500 (snd (parseStructured (JSON_parse w) structured)) \<noteq> []
                                      then js ''> '' @ take 500 (snd (parseStructured (JSON_parse w) structured)) @ nl
                                      else []),
                                     nl @ js ''(Generated image unavailable)'' @ nl,
                                     attribution] nl))]"
    by blast
  assume "res_post w = Ok ()"
  then show "exit_code (main_part_000 w) = 0"
    by (simp add: m0 main_rest_part_000_cases exit_code_def)
next
  assume h: "Post u (CommentBody body) \<in> set (calls (main w)) \<and> res_images_generate w = Inr img"
  then obtain c pr cap where "Post u (CommentBody body) \<in> set (calls (main_rest w c pr cap img))"
    unfolding main_def by (blast dest: post_reached_image)
  then have k: "(truthy (first_url img) \<or> truthy (first_b64 img))
           \<and> body = compose cap
                 (if truthy (first_url img) then the (first_url img)
                  else js ''data:image/png;base64,'' @ the (first_b64 img))"
    by (auto simp: main_rest_cases resolveImageUrl_cases split: if_splits)
  from k show "truthy (first_url img) \<or> truthy (first_b64 img)" by simp
  from k show "\<exists>cap. body = join
                 [MARKER, nl, (if cap \<noteq> [] then js ''> '' @ cap @ nl else []), [],
                  js ''![Funny PR Image]('' @
                    (if truthy (first_url img) then the (first_url img)
                     else js ''data:image/png;base64,'' @ the (first_b64 img)) @ js '')'',
                  [], attribution] nl"
    unfolding compose_unfolded by blast
  from k show "js_includes body
                 (js ''![Funny PR Image]('' @
                    (if truthy (first_url img) then the (first_url img)
                     else js ''data:image/png;base64,'' @ the (first_b64 img)) @ js '')'')"
    using compose_includes_image by simp
qed

lemma example_run:
  assumes "resolve w = Inr c_example" and "res_pr w = Ok pr" and "res_files w = Ok fs"
    and "res_comments w = Ok []" and "res_generateText w = Inr (js ''just some prose'')"
    and "JSON_parse w = parse_example" and "res_images_generate w = Inr img"
  shows "main_upto_image rest w =
     and_then \<lparr>calls = first_gets c_example
                  @ [GenerateText promptSystem (promptUser (prSummary pr fs)),
                     ImagesGenerate (js ''just some prose'')],
               result = ()\<rparr>
       (\<lambda>_. rest w c_example pr (js ''A lighthearted take on this PR'') img)"
proof -
  have e: "existing [] = None" by (simp add: existing_def)
  have "parseStructured (JSON_parse w) (js ''just some prose'')
          = (js ''just some prose'', js ''A lighthearted take on this PR'')"
    using assms(6) parse_example_prose by (simp add: parseStructured_unparsable js_def)
  with main_upto_image_reached [OF assms(1-4) e assms(5) assms(7), of rest]
  show ?thesis by simp
qed

lemma postUrl_example:
  "postUrl c_example = js ''https://api.github.com/repos/octo/cat/issues/123/comments''"
  by (simp add: postUrl_def c_example_def js_def)

lemma w_no_image_facts:
  "resolve w_no_image = Inr c_example"
  "res_pr w_no_image = Ok pr_same_repo"
  "res_files w_no_image = Ok [\<lparr>file_status = js ''modified'', file_filename = js ''src/index.ts''\<rparr>]"
  "res_comments w_no_image = Ok []"
  "res_generateText w_no_image = Inr (js ''just some prose'')"
  "JSON_parse w_no_image = parse_example"
  "res_images_generate w_no_image = Inr \<lparr>data = Some [\<lparr>url = None, b64_json = None\<rparr>]\<rparr>"
  "res_post w_no_image = Ok ()"
  using resolve_w_base by (simp_all add: w_no_image_def) (simp_all add: w_base_def)

theorem missing_image_still_posts_counterexample:
  "res_images_generate w_no_image = Inr \<lparr>data = Some [\<lparr>url = None, b64_json = None\<rparr>]\<rparr>
   \<and> first_url \<lparr>data = Some [\<lparr>url = None, b64_json = None\<rparr>]\<rparr> = None
   \<and> first_b64 \<lparr>data = Some [\<lparr>url = None, b64_json = None\<rparr>]\<rparr> = None
   \<and> calls (main_part_000 w_no_image)
       = first_gets c_example
         @ [GenerateText promptSystem (promptUser (prSummary pr_same_repo
              [\<lparr>file_status = js ''modified'', file_filename = js ''src/index.ts''\<rparr>])),
            ImagesGenerate (js ''just some prose''),
            Post (js ''https://api.github.com/repos/octo/cat/issues/123/comments'')
              (CommentBody (js ''<!-- patch-picasso -->'' @ nl @ nl @ nl
                 @ js ''> A lighthearted take on this PR'' @ nl @ nl @ nl
                 @ js ''(Generated image unavailable)'' @ nl @ nl
                 @ js ''<sub>Generated by patch-picasso using Vercel AI SDK and OpenAI.</sub>''))]
   \<and> result (main_part_000 w_no_image) = Returned
   \<and> exit_code (main_part_000 w_no_image) = 0"
proof -
  let ?img = "\<lparr>data = Some [\<lparr>url = None, b64_json = None\<rparr>]\<rparr>"
  have u: "first_url ?img = None" and b: "first_b64 ?img = None"
    by (simp_all add: first_url_def first_b64_def first_datum_def)
  have f: "fallback w_no_image c_example pr_same_repo ?img = finished None"
    using fallback_skipped [of ?img pr_same_repo w_no_image c_example] u b
    by (simp add: truthy_def)
  have body: "compose_part_000 (take 500 (js ''A lighthearted take on this PR'')) None
      = js ''<!-- patch-picasso -->'' @ nl @ nl @ nl
        @ js ''> A lighthearted take on this PR'' @ nl @ nl @ nl
        @ js ''(Generated image unavailable)'' @ nl @ nl
        @ js ''<sub>Generated by patch-picasso using Vercel AI SDK and OpenAI.</sub>''"
    by (simp add: compose_part_000_def MARKER_def attribution_def truthy_def js_def)
  have m: "main_part_000 w_no_image =
     and_then \<lparr>calls = first_gets c_example
                  @ [GenerateText promptSystem (promptUser (prSummary pr_same_repo
                       [\<lparr>file_status = js ''modified'', file_filename = js ''src/index.ts''\<rparr>])),
                     ImagesGenerate (js ''just some prose'')],
               result = ()\<rparr>
       (\<lambda>_. main_rest_part_000 w_no_image c_example pr_same_repo
               (js ''A lighthearted take on this PR'') ?img)"
    unfolding main_part_000_def by (rule example_run [OF w_no_image_facts(1-7)])
  show ?thesis
    using u b body
    by (simp add: m main_rest_part_000_cases f postUrl_example w_no_image_facts exit_code_def)
qed

theorem missing_image_aborts_index_only_witness:
  "exit_code (main w_no_image) = 1
   \<and> (\<forall>u b. Post u b \<notin> set (calls (main w_no_image)))
   \<and> exit_code (main_part_000 w_no_image) = 0
   \<and> js_includes (compose (js ''A lighthearted take on this PR'') (js ''https://img.example/1.png''))
        (js ''![Funny PR Image]('' @ js ''https://img.example/1.png'' @ js '')'')"
proof -
  let ?none = "\<lparr>data = Some [\<lparr>url = None, b64_json = None\<rparr>]\<rparr>"
  let ?img = "\<lparr>data = Some [\<lparr>url = Some (js ''https://img.example/1.png''), b64_json = None\<rparr>]\<rparr>"
  have made: "ImagesGenerate (fst (parseStructured (JSON_parse w_no_image) (js ''just some prose'')))
                \<in> set (calls (main w_no_image))"
    unfolding main_def
    by (rule generation_calls_made(2) [OF w_no_image_facts(1-4) w_base_reads(4) w_no_image_facts(5)])
  have neither: "\<not> truthy (first_url ?none)" "\<not> truthy (first_b64 ?none)"
    by (simp_all add: first_url_def first_b64_def first_datum_def truthy_def)
  have img: "res_images_generate w_base = Inr ?img"
    by (simp add: w_base_def)
  have u: "truthy (first_url ?img)" "the (first_url ?img) = js ''https://img.example/1.png''"
    by (simp_all add: first_url_def first_datum_def truthy_def js_def)
  from missing_image_aborts_index_only
         [of "fst (parseStructured (JSON_parse w_no_image) (js ''just some prose''))"
             w_no_image ?none]
       made neither w_no_image_facts(7,8)
  have a: "exit_code (main w_no_image) = 1
           \<and> (\<forall>u b. Post u b \<notin> set (calls (main w_no_image)))
           \<and> exit_code (main_part_000 w_no_image) = 0"
    by blast
  from missing_image_aborts_index_only [of _ w_base ?img] main_w_base_posts img
  have "js_includes (compose (js ''A lighthearted take on this PR'') (js ''https://img.example/1.png''))
          (js ''![Funny PR Image]('' @
             (if truthy (first_url ?img) then the (first_url ?img)
              else js ''data:image/png;base64,'' @ the (first_b64 ?img)) @ js '')'')"
    by blast
  then have "js_includes (compose (js ''A lighthearted take on this PR'') (js ''https://img.example/1.png''))
          (js ''![Funny PR Image]('' @ js ''https://img.example/1.png'' @ js '')'')"
    using u by simp
  with a show ?thesis by blast
qed

lemma w_b64_facts:
  "resolve w_b64 = Inr c_example"
  "res_pr w_b64 = Ok pr_same_repo"
  "res_files w_b64 = Ok [\<lparr>file_status = js ''modified'', file_filename = js ''src/index.ts''\<rparr>]"
  "res_comments w_b64 = Ok []"
  "res_generateText w_b64 = Inr (js ''just some prose'')"
  "JSON_parse w_b64 = parse_example"
  "res_images_generate w_b64
     = Inr \<lparr>data = Some [\<lparr>url = None, b64_json = Some (js ''iVBORw0KGgo='')\<rparr>]\<rparr>"
  "res_post w_b64 = Ok ()"
  using resolve_w_base by (simp_all add: w_b64_def) (simp_all add: w_base_def)

lemma w_b64_fork_facts:
  "resolve w_b64_fork = Inr c_example"
  "res_pr w_b64_fork = Ok pr_fork"
  "res_files w_b64_fork = Ok [\<lparr>file_status = js ''modified'', file_filename = js ''src/index.ts''\<rparr>]"
  "res_comments w_b64_fork = Ok []"
  "res_generateText w_b64_fork = Inr (js ''just some prose'')"
  "JSON_parse w_b64_fork = parse_example"
  "res_images_generate w_b64_fork
     = Inr \<lparr>data = Some [\<lparr>url = None, b64_json = Some (js ''iVBORw0KGgo='')\<rparr>]\<rparr>"
  "res_post w_b64_fork = Ok ()"
  using w_b64_facts by (simp_all add: w_b64_fork_def)

lemma b64_only_example:
  "\<not> truthy (first_url \<lparr>data = Some [\<lparr>url = None, b64_json = Some (js ''iVBORw0KGgo='')\<rparr>]\<rparr>)"
  "first_b64 \<lparr>data = Some [\<lparr>url = None, b64_json = Some (js ''iVBORw0KGgo='')\<rparr>]\<rparr>
     = Some (js ''iVBORw0KGgo='')"
  "js ''iVBORw0KGgo='' \<noteq> []"
  by (simp_all add: first_url_def first_b64_def first_datum_def truthy_def js_def)

text \<open>
  Claim C10. In src/src/index.ts, when the run made the image-generation call and the
  response has a base64 payload and no URL, the run does not throw at that point and
  writes nothing to the repository: the only call that follows is the comment post. The
  body of that comment is the marker, the caption line and the attribution around the
  image reference \<open>![Funny PR Image](data:image/png;base64,\<close> followed by the payload and
  \<open>)\<close>, and the run returns with exit code zero when that post succeeds.
\<close>

theorem index_embeds_base64_as_data_url:
  assumes "ImagesGenerate p \<in> set (calls (main w))"
    and "res_images_generate w = Inr img"
    and "\<not> truthy (first_url img)"
    and "first_b64 img = Some b64" and "b64 \<noteq> []"
  shows "(\<exists>c pr fs structured cap.
            resolve w = Inr c \<and> res_pr w = Ok pr \<and> res_files w = Ok fs
            \<and> res_generateText w = Inr structured
            \<and> cap = snd (parseStructured (JSON_parse w) structured)
            \<and> calls (main w)
                = first_gets c @ [GenerateText promptSystem (promptUser (prSummary pr fs)),
                                  ImagesGenerate p,
                                  Post (postUrl c) (CommentBody (join
                                    [MARKER, nl,
                                     (if cap \<noteq> [] then js ''> '' @ cap @ nl else []),
                                     [],
                                     js ''![Funny PR Image]('' @ js ''data:image/png;base64,''
                                       @ b64 @ js '')'',
                                     [],
                                     attribution] nl))])
         \<and> (\<forall>u body. Post u (CommentBody body) \<in> set (calls (main w)) \<longrightarrow>
               js_includes body
                 (js ''![Funny PR Image]('' @ js ''data:image/png;base64,'' @ b64 @ js '')''))
         \<and> (\<forall>u b. Put u b \<notin> set (calls (main w)))
         \<and> (res_post w = Ok () \<longrightarrow> result (main w) = Returned \<and> exit_code (main w) = 0)"
proof -
  from after_image [OF assms(1) [unfolded main_def] main_rest_no_image assms(2)]
  obtain c pr fs structured where
    r: "resolve w = Inr c" "res_pr w = Ok pr" "res_files w = Ok fs"
       "res_generateText w = Inr structured"
    and cm: "calls (main w)
               = first_gets c @ [GenerateText promptSystem (promptUser (prSummary pr fs)),
                                 ImagesGenerate p]
                 @ calls (main_rest w c pr (snd (parseStructured (JSON_parse w) structured)) img)"
    and rm: "result (main w)
               = result (main_rest w c pr (snd (parseStructured (JSON_parse w) structured)) img)"
    unfolding main_def by blast
  let ?cap = "snd (parseStructured (JSON_parse w) structured)"
  let ?url = "js ''data:image/png;base64,'' @ b64"
  have u: "resolveImageUrl img = Inr ?url"
    using assms(3-5) by (simp add: resolveImageUrl_cases truthy_def)
  have cm0: "calls (main w)
      = first_gets c @ [GenerateText promptSystem (promptUser (prSummary pr fs)),
                        ImagesGenerate p,
                        Post (postUrl c) (CommentBody (compose ?cap ?url))]"
    by (simp add: cm main_rest_cases u)
  have cm': "calls (main w)
      = first_gets c @ [GenerateText promptSystem (promptUser (prSummary pr fs)),
                        ImagesGenerate p,
                        Post (postUrl c) (CommentBody (join
                          [MARKER, nl, (if ?cap \<noteq> [] then js ''> '' @ ?cap @ nl else []), [],
                           js ''![Funny PR Image]('' @ js ''data:image/png;base64,'' @ b64 @ js '')'',
                           [], attribution] nl))]"
    unfolding cm0 compose_unfolded by simp
  have inc: "\<forall>u body. Post u (CommentBody body) \<in> set (calls (main w)) \<longrightarrow>
               js_includes body
                 (js ''![Funny PR Image]('' @ js ''data:image/png;base64,'' @ b64 @ js '')'')"
    unfolding cm0 using compose_includes_image [of ?cap ?url]
    by (auto dest: first_gets_only_gets)
  have np: "\<forall>u b. Put u b \<notin> set (calls (main w))"
    unfolding cm0 by (auto dest: first_gets_only_gets)
  have ok: "res_post w = Ok () \<longrightarrow> result (main w) = Returned \<and> exit_code (main w) = 0"
    by (simp add: rm main_rest_cases u exit_code_def)
  from r cm' inc np ok show ?thesis by blast
qed

theorem index_embeds_base64_as_data_url_witness:
  "calls (main w_b64)
     = first_gets c_example
       @ [GenerateText promptSystem (promptUser (prSummary pr_same_repo
            [\<lparr>file_status = js ''modified'', file_filename = js ''src/index.ts''\<rparr>])),
          ImagesGenerate (js ''just some prose''),
          Post (js ''https://api.github.com/repos/octo/cat/issues/123/comments'')
            (CommentBody (js ''<!-- patch-picasso -->'' @ nl @ nl @ nl
               @ js ''> A lighthearted take on this PR'' @ nl @ nl @ nl
               @ js ''![Funny PR Image](data:image/png;base64,iVBORw0KGgo=)'' @ nl @ nl
               @ js ''<sub>Generated by patch-picasso using Vercel AI SDK and OpenAI.</sub>''))]
   \<and> (\<forall>u b. Put u b \<notin> set (calls (main w_b64)))
   \<and> exit_code (main w_b64) = 0"
proof -
  have ps: "parseStructured (JSON_parse w_b64) (js ''just some prose'')
          = (js ''just some prose'', js ''A lighthearted take on this PR'')"
    using parse_example_prose
    by (simp add: w_b64_facts(6) parseStructured_unparsable js_def)
  have made: "ImagesGenerate (js ''just some prose'') \<in> set (calls (main w_b64))"
    using generation_calls_made(2) [OF w_b64_facts(1-4) w_base_reads(4) w_b64_facts(5), of main_rest]
    by (simp add: main_def ps)
  have body: "join [MARKER, nl,
                    (if js ''A lighthearted take on this PR'' \<noteq> []
                     then js ''> '' @ js ''A lighthearted take on this PR'' @ nl else []),
                    [],
                    js ''![Funny PR Image]('' @ js ''data:image/png;base64,''
                      @ js ''iVBORw0KGgo='' @ js '')'',
                    [], attribution] nl
      = js ''<!-- patch-picasso -->'' @ nl @ nl @ nl
        @ js ''> A lighthearted take on this PR'' @ nl @ nl @ nl
        @ js ''![Funny PR Image](data:image/png;base64,iVBORw0KGgo=)'' @ nl @ nl
        @ js ''<sub>Generated by patch-picasso using Vercel AI SDK and OpenAI.</sub>''"
    by (simp add: MARKER_def attribution_def js_def)
  from index_embeds_base64_as_data_url [OF made w_b64_facts(7) b64_only_example]
  show ?thesis
    using w_b64_facts(1-5,8) ps body postUrl_example by auto
qed

text \<open>
  Claim C2. In the second entry point, when the run made the image-generation call, the
  response has a base64 payload and no URL, and the head and base repositories of the
  fetched pull request differ or it has no head branch name, then nothing is written to
  the repository: the only call that follows is the comment post, and the body of that
  comment has the text \<open>(Generated image unavailable)\<close> where the image reference would
  be, so no image URL is embedded.
\<close>

theorem fork_skips_publication:
  assumes "ImagesGenerate p \<in> set (calls (main_part_000 w))"
    and "res_pr w = Ok pr"
    and "res_images_generate w = Inr img"
    and "\<not> truthy (first_url img)" and "truthy (first_b64 img)"
    and "pr_head_repo_full_name pr \<noteq> pr_base_repo_full_name pr \<or> \<not> truthy (pr_head_ref pr)"
  shows "(\<exists>c fs structured cap.
            resolve w = Inr c \<and> res_files w = Ok fs \<and> res_generateText w = Inr structured
            \<and> cap = take 500 (snd (parseStructured (JSON_parse w) structured))
            \<and> calls (main_part_000 w)
                = first_gets c @ [GenerateText promptSystem (promptUser (prSummary pr fs)),
                                  ImagesGenerate p,
                                  Post (postUrl c) (CommentBody (join
                                    [MARKER, nl,
                                     (if cap \<noteq> [] then js ''> '' @ cap @ nl else []),
                                     nl @ js ''(Generated image unavailable)'' @ nl,
                                     attribution] nl))])
         \<and> (\<forall>u b. Put u b \<notin> set (calls (main_part_000 w)))
         \<and> (\<forall>u body. Post u (CommentBody body) \<in> set (calls (main_part_000 w)) \<longrightarrow>
               js_includes body (js ''(Generated image unavailable)''))"
proof -
  from after_image [OF assms(1) [unfolded main_part_000_def] main_rest_part_000_no_image assms(3)]
  obtain c pr' fs structured where
    r: "resolve w = Inr c" "res_pr w = Ok pr'" "res_files w = Ok fs"
       "res_generateText w = Inr structured"
    and cm: "calls (main_part_000 w)
               = first_gets c @ [GenerateText promptSystem (promptUser (prSummary pr' fs)),
                                 ImagesGenerate p]
                 @ calls (main_rest_part_000 w c pr'
                           (snd (parseStructured (JSON_parse w) structured)) img)"
    unfolding main_part_000_def by blast
  from r(2) assms(2) have pr: "pr' = pr" by simp
  let ?cap = "take 500 (snd (parseStructured (JSON_parse w) structured))"
  let ?body = "join [MARKER, nl, (if ?cap \<noteq> [] then js ''> '' @ ?cap @ nl else []),
                     nl @ js ''(Generated image unavailable)'' @ nl, attribution] nl"
  have f: "fallback w c pr img = finished (first_url img)"
    using assms(4,6) by (blast intro: fallback_skipped)
  have cm': "calls (main_part_000 w)
      = first_gets c @ [GenerateText promptSystem (promptUser (prSummary pr fs)),
                        ImagesGenerate p, Post (postUrl c) (CommentBody ?body)]"
    using assms(4) by (simp add: cm pr main_rest_part_000_cases f compose_part_000_unavailable)
  have np: "\<forall>u b. Put u b \<notin> set (calls (main_part_000 w))"
    unfolding cm' by (auto dest: first_gets_only_gets)
  have "?body = (MARKER @ nl @ nl @ nl @ (if ?cap \<noteq> [] then js ''> '' @ ?cap @ nl else []) @ nl @ nl)
                @ js ''(Generated image unavailable)'' @ (nl @ nl @ attribution)"
    by simp
  then have inc: "js_includes ?body (js ''(Generated image unavailable)'')"
    unfolding js_includes_iff by blast
  have "\<forall>u body. Post u (CommentBody body) \<in> set (calls (main_part_000 w)) \<longrightarrow>
               js_includes body (js ''(Generated image unavailable)'')"
    unfolding cm' using inc by (auto dest: first_gets_only_gets)
  with r cm' np show ?thesis by blast
qed

theorem fork_skips_publication_witness:
  "calls (main_part_000 w_b64_fork)
     = first_gets c_example
       @ [GenerateText promptSystem (promptUser (prSummary pr_fork
            [\<lparr>file_status = js ''modified'', file_filename = js ''src/index.ts''\<rparr>])),
          ImagesGenerate (js ''just some prose''),
          Post (postUrl c_example) (CommentBody (join
            [MARKER, nl, js ''> '' @ js ''A lighthearted take on this PR'' @ nl,
             nl @ js ''(Generated image unavailable)'' @ nl, attribution] nl))]
   \<and> (\<forall>u b. Put u b \<notin> set (calls (main_part_000 w_b64_fork)))"
proof -
  have ps: "parseStructured (JSON_parse w_b64_fork) (js ''just some prose'')
          = (js ''just some prose'', js ''A lighthearted take on this PR'')"
    using parse_example_prose
    by (simp add: w_b64_fork_facts(6) parseStructured_unparsable js_def)
  have made: "ImagesGenerate (js ''just some prose'') \<in> set (calls (main_part_000 w_b64_fork))"
    using generation_calls_made(2)
            [OF w_b64_fork_facts(1-4) w_base_reads(4) w_b64_fork_facts(5), of main_rest_part_000]
    by (simp add: main_part_000_def ps)
  have b: "truthy (first_b64 \<lparr>data = Some [\<lparr>url = None, b64_json = Some (js ''iVBORw0KGgo='')\<rparr>]\<rparr>)"
    using b64_only_example(2,3) by (simp add: truthy_def)
  have fork: "pr_head_repo_full_name pr_fork \<noteq> pr_base_repo_full_name pr_fork
              \<or> \<not> truthy (pr_head_ref pr_fork)"
    by (simp add: pr_fork_def pr_same_repo_def js_def)
  have cap: "take 500 (js ''A lighthearted take on this PR'') \<noteq> []"
    by (simp add: js_def)
  from fork_skips_publication
         [OF made w_b64_fork_facts(2) w_b64_fork_facts(7) b64_only_example(1) b fork]
  show ?thesis
    using w_b64_fork_facts(1-5) ps cap by (auto simp: default_caption_short)
qed

section \<open>The images branch\<close>

lemma getJson_Ok [simp]: "getJson u (Ok v) = Inr v"
  by (simp add: getJson_def)

lemma getJson_fails: "res \<noteq> Ok () \<Longrightarrow> \<exists>e. getJson u res = Inl e"
  by (cases res) (simp_all add: getJson_def)

text \<open>
  Claim C7. \<open>uploadImageToImagesBranch\<close> starts with \<open>ensureImagesBranch\<close> on its target
  branch. In \<open>ensureImagesBranch\<close>, when the read of the branch succeeds, that read is the
  only call and no branch is created. When the read fails (with not-found or any other
  error), the next calls are the read of the repository, then the read of the branch named
  by its \<open>default_branch\<close>, then the creation of \<open>refs/heads/\<close> followed by the branch name,
  pointing at the commit identifier that the second read returned; nothing else is called.
\<close>

theorem ensureImagesBranch_creates_from_default_head:
  assumes "encode s br = Some encBranch"
    and "apiBase = js ''https://api.github.com/repos/'' @ own @ js ''/'' @ rep"
  shows "(res_branch s = Ok () \<longrightarrow>
            ensureImagesBranch s own rep tok br
              = \<lparr>calls = [Get (apiBase @ js ''/branches/'' @ encBranch)], result = Inr ()\<rparr>)
         \<and> (res_branch s \<noteq> Ok () \<and> res_repo s = Ok info
              \<and> encode s (default_branch info) = Some encDefault
              \<and> res_default_branch s = Ok head \<longrightarrow>
            calls (ensureImagesBranch s own rep tok br)
              = [Get (apiBase @ js ''/branches/'' @ encBranch),
                 Get apiBase,
                 Get (apiBase @ js ''/branches/'' @ encDefault),
                 Post (apiBase @ js ''/git/refs'')
                      (NewRef (js ''refs/heads/'' @ br) (commit_sha head))]
            \<and> (res_create_ref s = Ok () \<longrightarrow>
                  result (ensureImagesBranch s own rep tok br) = Inr ()))
         \<and> (target_branch s params = br \<and> owner params = own \<and> repo params = rep
              \<and> token params = tok \<longrightarrow>
            prefix (calls (ensureImagesBranch s own rep tok br))
                   (calls (uploadImageToImagesBranch s params)))"
proof (intro conjI impI)
  assume "res_branch s = Ok ()"
  then show "ensureImagesBranch s own rep tok br
              = \<lparr>calls = [Get (apiBase @ js ''/branches/'' @ encBranch)], result = Inr ()\<rparr>"
    using assms by (simp add: ensureImagesBranch_def after_def finished_def)
next
  assume h: "res_branch s \<noteq> Ok () \<and> res_repo s = Ok info
              \<and> encode s (default_branch info) = Some encDefault
              \<and> res_default_branch s = Ok head"
  then obtain e where e: "getJson (apiBase @ js ''/branches/'' @ encBranch) (res_branch s) = Inl e"
    using getJson_fails by blast
  have c: "create_from_default s apiBase br
      = after (Get apiBase) (after (Get (apiBase @ js ''/branches/'' @ encDefault))
          (after (Post (apiBase @ js ''/git/refs'')
                       (NewRef (js ''refs/heads/'' @ br) (commit_sha head)))
             (case storage_postJson (apiBase @ js ''/git/refs'') (res_create_ref s) of
                Inl e \<Rightarrow> finished (Inl e) | Inr _ \<Rightarrow> finished (Inr ()))))"
    using h by (simp add: create_from_default_def Let_def)
  have en: "ensureImagesBranch s own rep tok br
      = after (Get (apiBase @ js ''/branches/'' @ encBranch)) (create_from_default s apiBase br)"
    using assms e by (simp add: ensureImagesBranch_def)
  show "calls (ensureImagesBranch s own rep tok br)
              = [Get (apiBase @ js ''/branches/'' @ encBranch),
                 Get apiBase,
                 Get (apiBase @ js ''/branches/'' @ encDefault),
                 Post (apiBase @ js ''/git/refs'')
                      (NewRef (js ''refs/heads/'' @ br) (commit_sha head))]"
    by (simp add: en c split: sum.splits)
  assume "res_create_ref s = Ok ()"
  then show "result (ensureImagesBranch s own rep tok br) = Inr ()"
    by (simp add: en c storage_postJson_def)
next
  assume "target_branch s params = br \<and> owner params = own \<and> repo params = rep
              \<and> token params = tok"
  then show "prefix (calls (ensureImagesBranch s own rep tok br))
                   (calls (uploadImageToImagesBranch s params))"
    by (auto simp: uploadImageToImagesBranch_def Let_def)
qed

lemma encode_example_plain:
  "0x2F \<notin> set x \<Longrightarrow> encode_example x = Some x"
  unfolding encode_example_def by (induction x) auto

lemma target_branch_example:
  "target_branch s_missing params_example = js ''patch-picasso-images''"
  "target_branch s_present params_example = js ''patch-picasso-images''"
  by (simp_all add: target_branch_def s_present_def s_missing_def params_example_def truthy_def)

theorem ensureImagesBranch_creates_from_default_head_witness:
  "ensureImagesBranch s_present (js ''octo'') (js ''cat'') (js ''ghp_example'')
       (js ''patch-picasso-images'')
     = \<lparr>calls = [Get (js ''https://api.github.com/repos/octo/cat''
                        @ js ''/branches/'' @ js ''patch-picasso-images'')],
        result = Inr ()\<rparr>
   \<and> calls (ensureImagesBranch s_missing (js ''octo'') (js ''cat'') (js ''ghp_example'')
        (js ''patch-picasso-images''))
     = [Get (js ''https://api.github.com/repos/octo/cat'' @ js ''/branches/''
             @ js ''patch-picasso-images''),
        Get (js ''https://api.github.com/repos/octo/cat''),
        Get (js ''https://api.github.com/repos/octo/cat'' @ js ''/branches/'' @ js ''main''),
        Post (js ''https://api.github.com/repos/octo/cat'' @ js ''/git/refs'')
             (NewRef (js ''refs/heads/'' @ js ''patch-picasso-images'') (js ''abc123''))]
   \<and> result (ensureImagesBranch s_missing (js ''octo'') (js ''cat'') (js ''ghp_example'')
        (js ''patch-picasso-images'')) = Inr ()
   \<and> prefix (calls (ensureImagesBranch s_missing (js ''octo'') (js ''cat'') (js ''ghp_example'')
        (js ''patch-picasso-images'')))
        (calls (uploadImageToImagesBranch s_missing params_example))"
proof -
  have eb: "encode_example (js ''patch-picasso-images'') = Some (js ''patch-picasso-images'')"
    and em: "encode_example (js ''main'') = Some (js ''main'')"
    by (rule encode_example_plain, simp add: js_def)+
  have a: "js ''https://api.github.com/repos/octo/cat''
             = js ''https://api.github.com/repos/'' @ js ''octo'' @ js ''/'' @ js ''cat''"
    by (simp add: js_def)
  have p: "encode s_present (js ''patch-picasso-images'') = Some (js ''patch-picasso-images'')"
    "res_branch s_present = Ok ()"
    using eb by (simp_all add: s_present_def s_missing_def)
  have m: "encode s_missing (js ''patch-picasso-images'') = Some (js ''patch-picasso-images'')"
    "res_branch s_missing \<noteq> Ok () \<and> res_repo s_missing = Ok \<lparr>default_branch = js ''main''\<rparr>
     \<and> encode s_missing (default_branch \<lparr>default_branch = js ''main''\<rparr>) = Some (js ''main'')
     \<and> res_default_branch s_missing = Ok \<lparr>commit_sha = js ''abc123''\<rparr>"
    "res_create_ref s_missing = Ok ()"
    using eb em by (simp_all add: s_missing_def)
  have t: "target_branch s_missing params_example = js ''patch-picasso-images''
           \<and> owner params_example = js ''octo'' \<and> repo params_example = js ''cat''
           \<and> token params_example = js ''ghp_example''"
    using target_branch_example by (simp add: params_example_def)
  from ensureImagesBranch_creates_from_default_head [OF p(1) a, where tok = "js ''ghp_example''"] p(2)
  have 1: "ensureImagesBranch s_present (js ''octo'') (js ''cat'') (js ''ghp_example'')
       (js ''patch-picasso-images'')
     = \<lparr>calls = [Get (js ''https://api.github.com/repos/octo/cat''
                        @ js ''/branches/'' @ js ''patch-picasso-images'')],
        result = Inr ()\<rparr>"
    by blast
  from ensureImagesBranch_creates_from_default_head
         [OF m(1) a, where info = "\<lparr>default_branch = js ''main''\<rparr>" and encDefault = "js ''main''"
             and head = "\<lparr>commit_sha = js ''abc123''\<rparr>" and tok = "js ''ghp_example''"
             and params = params_example]
       m(2,3) t
  have 2: "calls (ensureImagesBranch s_missing (js ''octo'') (js ''cat'') (js ''ghp_example'')
        (js ''patch-picasso-images''))
     = [Get (js ''https://api.github.com/repos/octo/cat'' @ js ''/branches/''
             @ js ''patch-picasso-images''),
        Get (js ''https://api.github.com/repos/octo/cat''),
        Get (js ''https://api.github.com/repos/octo/cat'' @ js ''/branches/'' @ js ''main''),
        Post (js ''https://api.github.com/repos/octo/cat'' @ js ''/git/refs'')
             (NewRef (js ''refs/heads/'' @ js ''patch-picasso-images'')
                     (commit_sha \<lparr>commit_sha = js ''abc123''\<rparr>))]"
    and 3: "result (ensureImagesBranch s_missing (js ''octo'') (js ''cat'') (js ''ghp_example'')
        (js ''patch-picasso-images'')) = Inr ()"
    and 4: "prefix (calls (ensureImagesBranch s_missing (js ''octo'') (js ''cat'') (js ''ghp_example'')
        (js ''patch-picasso-images'')))
        (calls (uploadImageToImagesBranch s_missing params_example))"
    by blast+
  from 2 have calls_missing: "calls (ensureImagesBranch s_missing (js ''octo'') (js ''cat'') (js ''ghp_example'')
        (js ''patch-picasso-images''))
     = [Get (js ''https://api.github.com/repos/octo/cat'' @ js ''/branches/''
             @ js ''patch-picasso-images''),
        Get (js ''https://api.github.com/repos/octo/cat''),
        Get (js ''https://api.github.com/repos/octo/cat'' @ js ''/branches/'' @ js ''main''),
        Post (js ''https://api.github.com/repos/octo/cat'' @ js ''/git/refs'')
             (NewRef (js ''refs/heads/'' @ js ''patch-picasso-images'') (js ''abc123''))]"
    by simp
  from 1 calls_missing 3 4 show ?thesis by blast
qed

section \<open>The published URL\<close>

lemma putJson_Ok [simp]: "putJson u (Ok v) = Inr v"
  by (simp add: putJson_def)

lemma uploadImageToImagesBranch_url:
  assumes "result (uploadImageToImagesBranch s params) = Inr u"
  shows "\<exists>encBranch. encode s (target_branch s params) = Some encBranch
           \<and> u = js ''https://raw.githubusercontent.com/'' @ owner params @ js ''/''
                  @ repo params @ js ''/refs/heads/'' @ encBranch @ js ''/'' @ pathInRepo params"
  using assms
  by (auto simp: uploadImageToImagesBranch_def Let_def split: sum.splits option.splits)

lemma uploadImageToImagesBranch_ignores_response:
  "uploadImageToImagesBranch (s\<lparr>res_put_contents := Ok r1\<rparr>) params
     = uploadImageToImagesBranch (s\<lparr>res_put_contents := Ok r2\<rparr>) params"
  by (simp add: uploadImageToImagesBranch_def ensureImagesBranch_def create_from_default_def
      existing_sha_def target_branch_def storage_putJson_def Let_def
      cong: if_cong sum.case_cong option.case_cong)

text \<open>
  Claim C6, as the code has it. In the second entry point, when the guard of the fallback
  holds and the write of the image file succeeds, the image URL is the \<open>download_url\<close> of
  the write response when that is a non-empty string, and otherwise the raw-content URL
  built from owner, repository, encoded head branch and path. \<open>uploadImageToImagesBranch\<close>
  never looks at the write response: whenever it returns a URL, that URL is built from
  owner, repository, \<open>refs/heads/\<close> with the encoded branch, and path, and a different write
  response changes nothing.
\<close>

theorem published_url_prefers_response_on_head_branch_only:
  "(\<not> truthy (first_url img) \<and> first_b64 img = Some b64 \<and> b64 \<noteq> []
     \<and> truthy (pr_head_repo_full_name pr) \<and> pr_head_repo_full_name pr = pr_base_repo_full_name pr
     \<and> pr_head_ref pr = Some headRef \<and> headRef \<noteq> []
     \<and> imgPath = js ''.github/patch-picasso/'' @ ctx_prNumber c @ js ''-''
                  @ shown (Date_now w) @ js ''.png''
     \<and> encodeURIComponent w imgPath = Some encPath
     \<and> res_put w = Ok res
    \<longrightarrow>
      calls (fallback w c pr img)
        = [Put (ctx_apiBase c @ js ''/contents/'' @ encPath)
               (FileWrite (js ''patch-picasso: add generated image for PR #'' @ ctx_prNumber c)
                          b64 headRef None)]
      \<and> (truthy (content_download_url res) \<longrightarrow>
            result (fallback w c pr img) = content_download_url res)
      \<and> (\<not> truthy (content_download_url res) \<and> encodeURIComponent w headRef = Some encRef \<longrightarrow>
            result (fallback w c pr img)
              = Some (js ''https://raw.githubusercontent.com/'' @ ctx_owner c @ js ''/''
                      @ ctx_repo c @ js ''/'' @ encRef @ js ''/'' @ imgPath)))
   \<and> (result (uploadImageToImagesBranch s params) = Inr u \<longrightarrow>
        (\<exists>encBranch. encode s (target_branch s params) = Some encBranch
           \<and> u = js ''https://raw.githubusercontent.com/'' @ owner params @ js ''/''
                  @ repo params @ js ''/refs/heads/'' @ encBranch @ js ''/'' @ pathInRepo params))
   \<and> uploadImageToImagesBranch (s\<lparr>res_put_contents := Ok r1\<rparr>) params
        = uploadImageToImagesBranch (s\<lparr>res_put_contents := Ok r2\<rparr>) params"
proof (intro conjI impI)
  assume h: "\<not> truthy (first_url img) \<and> first_b64 img = Some b64 \<and> b64 \<noteq> []
     \<and> truthy (pr_head_repo_full_name pr) \<and> pr_head_repo_full_name pr = pr_base_repo_full_name pr
     \<and> pr_head_ref pr = Some headRef \<and> headRef \<noteq> []
     \<and> imgPath = js ''.github/patch-picasso/'' @ ctx_prNumber c @ js ''-''
                  @ shown (Date_now w) @ js ''.png''
     \<and> encodeURIComponent w imgPath = Some encPath
     \<and> res_put w = Ok res"
  then have g: "\<not> truthy (first_url img)" "first_b64 img = Some b64" "b64 \<noteq> []"
      "truthy (pr_head_repo_full_name pr)" "pr_head_repo_full_name pr = pr_base_repo_full_name pr"
      "pr_head_ref pr = Some headRef" "headRef \<noteq> []"
    and ip: "imgPath = js ''.github/patch-picasso/'' @ ctx_prNumber c @ js ''-''
               @ shown (Date_now w) @ js ''.png''"
    and enc: "encodeURIComponent w imgPath = Some encPath"
    and put: "res_put w = Ok res"
    by blast+
  from g have f: "fallback w c pr img
      = and_then (upload_to_head w c b64 headRef)
          (\<lambda>u. finished (case u of None \<Rightarrow> first_url img | Some _ \<Rightarrow> u))"
    by (auto simp: fallback_def Let_def truthy_def)
  have up: "upload_to_head w c b64 headRef
      = after (Put (ctx_apiBase c @ js ''/contents/'' @ encPath)
                 (FileWrite (js ''patch-picasso: add generated image for PR #'' @ ctx_prNumber c)
                            b64 headRef None))
          (if truthy (content_download_url res) then finished (content_download_url res)
           else (case encodeURIComponent w headRef of None \<Rightarrow> finished None
                 | Some encRef \<Rightarrow>
                     finished (Some (js ''https://raw.githubusercontent.com/'' @ ctx_owner c
                                     @ js ''/'' @ ctx_repo c @ js ''/'' @ encRef
                                     @ js ''/'' @ imgPath))))"
    unfolding upload_to_head_def Let_def ip [symmetric] enc put by simp
  show "calls (fallback w c pr img)
        = [Put (ctx_apiBase c @ js ''/contents/'' @ encPath)
               (FileWrite (js ''patch-picasso: add generated image for PR #'' @ ctx_prNumber c)
                          b64 headRef None)]"
    by (simp add: f up split: option.splits)
  show "result (fallback w c pr img) = content_download_url res"
    if "truthy (content_download_url res)"
    using that by (auto simp: f up truthy_def split: option.splits)
  show "result (fallback w c pr img)
          = Some (js ''https://raw.githubusercontent.com/'' @ ctx_owner c @ js ''/''
                  @ ctx_repo c @ js ''/'' @ encRef @ js ''/'' @ imgPath)"
    if "\<not> truthy (content_download_url res) \<and> encodeURIComponent w headRef = Some encRef"
    using that by (simp add: f up)
next
  assume "result (uploadImageToImagesBranch s params) = Inr u"
  then show "\<exists>encBranch. encode s (target_branch s params) = Some encBranch
           \<and> u = js ''https://raw.githubusercontent.com/'' @ owner params @ js ''/''
                  @ repo params @ js ''/refs/heads/'' @ encBranch @ js ''/'' @ pathInRepo params"
    by (rule uploadImageToImagesBranch_url)
next
  show "uploadImageToImagesBranch (s\<lparr>res_put_contents := Ok r1\<rparr>) params
        = uploadImageToImagesBranch (s\<lparr>res_put_contents := Ok r2\<rparr>) params"
    by (rule uploadImageToImagesBranch_ignores_response)
qed

theorem images_branch_ignores_write_response_counterexample:
  "res_put_contents s_present = Ok \<lparr>content_download_url =
       Some (js ''https://raw.githubusercontent.com/octo/cat/patch-picasso-images/img.png'')\<rparr>
   \<and> calls (uploadImageToImagesBranch s_present params_example)
       = [Get (js ''https://api.github.com/repos/octo/cat/branches/patch-picasso-images''),
          Get (js ''https://api.github.com/repos/octo/cat/contents/img.png?ref=patch-picasso-images''),
          Put (js ''https://api.github.com/repos/octo/cat/contents/img.png'')
              (FileWrite (js ''add image'') (js ''iVBORw0KGgo='') (js ''patch-picasso-images'') None)]
   \<and> result (uploadImageToImagesBranch s_present params_example)
       = Inr (js ''https://raw.githubusercontent.com/octo/cat/refs/heads/patch-picasso-images/img.png'')
   \<and> js ''https://raw.githubusercontent.com/octo/cat/refs/heads/patch-picasso-images/img.png''
       \<noteq> js ''https://raw.githubusercontent.com/octo/cat/patch-picasso-images/img.png''"
  by (simp add: uploadImageToImagesBranch_def ensureImagesBranch_def existing_sha_def
      target_branch_def s_present_def s_missing_def params_example_def encode_example_def
      getJson_def storage_putJson_def truthy_def js_def Let_def)


theorem published_url_prefers_response_on_head_branch_only_witness:
  "result (fallback w_b64_download c_example pr_same_repo
             \<lparr>data = Some [\<lparr>url = None, b64_json = Some (js ''iVBORw0KGgo='')\<rparr>]\<rparr>)
     = Some (js ''https://raw.githubusercontent.com/octo/cat/feature/.github/patch-picasso/123-1700000000000.png'')
   \<and> result (fallback w_b64 c_example pr_same_repo
             \<lparr>data = Some [\<lparr>url = None, b64_json = Some (js ''iVBORw0KGgo='')\<rparr>]\<rparr>)
     = Some (js ''https://raw.githubusercontent.com/'' @ ctx_owner c_example @ js ''/''
             @ ctx_repo c_example @ js ''/'' @ js ''feature'' @ js ''/''
             @ js ''.github/patch-picasso/123-1700000000000.png'')
   \<and> (\<exists>encBranch. encode s_present (target_branch s_present params_example) = Some encBranch
         \<and> js ''https://raw.githubusercontent.com/octo/cat/refs/heads/patch-picasso-images/img.png''
             = js ''https://raw.githubusercontent.com/'' @ owner params_example @ js ''/''
               @ repo params_example @ js ''/refs/heads/'' @ encBranch @ js ''/''
               @ pathInRepo params_example)"
proof -
  let ?img = "\<lparr>data = Some [\<lparr>url = None, b64_json = Some (js ''iVBORw0KGgo='')\<rparr>]\<rparr>"
  let ?path = "js ''.github/patch-picasso/123-1700000000000.png''"
  let ?encPath = "js ''.github%2Fpatch-picasso%2F123-1700000000000.png''"
  let ?dl = "js ''https://raw.githubusercontent.com/octo/cat/feature/.github/patch-picasso/123-1700000000000.png''"
  have pr: "truthy (pr_head_repo_full_name pr_same_repo)
            \<and> pr_head_repo_full_name pr_same_repo = pr_base_repo_full_name pr_same_repo
            \<and> pr_head_ref pr_same_repo = Some (js ''feature'') \<and> js ''feature'' \<noteq> []"
    by (simp add: pr_same_repo_def truthy_def js_def)
  have path: "?path = js ''.github/patch-picasso/'' @ ctx_prNumber c_example @ js ''-''
                @ shown (Date_now w_b64) @ js ''.png''"
    "?path = js ''.github/patch-picasso/'' @ ctx_prNumber c_example @ js ''-''
                @ shown (Date_now w_b64_download) @ js ''.png''"
    by (simp_all add: c_example_def w_b64_download_def w_b64_def w_base_def js_def)
  have enc: "encodeURIComponent w_b64 ?path = Some ?encPath"
    "encodeURIComponent w_b64_download ?path = Some ?encPath"
    "encodeURIComponent w_b64 (js ''feature'') = Some (js ''feature'')"
    by (simp_all add: w_b64_download_def w_b64_def w_base_def encode_example_def js_def)
  have put: "res_put w_b64 = Ok \<lparr>content_download_url = None\<rparr>"
    "res_put w_b64_download = Ok \<lparr>content_download_url = Some ?dl\<rparr>"
    by (simp_all add: w_b64_download_def w_b64_def w_base_def)
  have t: "truthy (content_download_url \<lparr>content_download_url = Some ?dl\<rparr>)"
    "\<not> truthy (content_download_url \<lparr>content_download_url = None\<rparr>)"
    by (simp_all add: truthy_def js_def)
  have up: "result (uploadImageToImagesBranch s_present params_example)
       = Inr (js ''https://raw.githubusercontent.com/octo/cat/refs/heads/patch-picasso-images/img.png'')"
    by (simp add: uploadImageToImagesBranch_def ensureImagesBranch_def existing_sha_def
      target_branch_def s_present_def s_missing_def params_example_def encode_example_def
      getJson_def storage_putJson_def truthy_def js_def Let_def)
  from published_url_prefers_response_on_head_branch_only
         [where img = ?img and ?b64.0 = "js ''iVBORw0KGgo=''" and pr = pr_same_repo
            and headRef = "js ''feature''" and imgPath = ?path and c = c_example
            and w = w_b64_download and encPath = ?encPath
            and res = "\<lparr>content_download_url = Some ?dl\<rparr>"]
       b64_only_example pr path(2) enc(2) put(2) t(1)
  have 1: "result (fallback w_b64_download c_example pr_same_repo ?img)
             = content_download_url \<lparr>content_download_url = Some ?dl\<rparr>"
    by blast
  from published_url_prefers_response_on_head_branch_only
         [where img = ?img and ?b64.0 = "js ''iVBORw0KGgo=''" and pr = pr_same_repo
            and headRef = "js ''feature''" and imgPath = ?path and c = c_example
            and w = w_b64 and encPath = ?encPath
            and res = "\<lparr>content_download_url = None\<rparr>" and encRef = "js ''feature''"]
       b64_only_example pr path(1) enc(1,3) put(1) t(2)
  have 2: "result (fallback w_b64 c_example pr_same_repo ?img)
     = Some (js ''https://raw.githubusercontent.com/'' @ ctx_owner c_example @ js ''/''
             @ ctx_repo c_example @ js ''/'' @ js ''feature'' @ js ''/'' @ ?path)"
    by blast
  from published_url_prefers_response_on_head_branch_only
         [where s = s_present and params = params_example
            and u = "js ''https://raw.githubusercontent.com/octo/cat/refs/heads/patch-picasso-images/img.png''"]
       up
  have 3: "\<exists>encBranch. encode s_present (target_branch s_present params_example) = Some encBranch
         \<and> js ''https://raw.githubusercontent.com/octo/cat/refs/heads/patch-picasso-images/img.png''
             = js ''https://raw.githubusercontent.com/'' @ owner params_example @ js ''/''
               @ repo params_example @ js ''/refs/heads/'' @ encBranch @ js ''/''
               @ pathInRepo params_example"
    by blast
  from 1 2 3 show ?thesis by simp
qed

end
